theory Spec2Isabelle
  imports
    Complex_Main
    "HOL-Library.Char_ord"
    "HOL-Library.List_Lexorder"
    "HOL-Library.Multiset"
begin

section \<open>Rubric model (src/lib/scoring/rubric.ts)\<close>

text \<open>
  A TypeScript \<^verbatim>\<open>number\<close> that comes out of a JSON document is a finite decimal
  fraction.  It is modelled as a rational number.  The lookups and the category scorers
  compare such numbers and add deductions up; there the arithmetic of the model is exact.
  The weighted sum of the final score is evaluated in IEEE-754 double arithmetic, as the
  program evaluates it (see the section on double-precision numbers).  A
  \<^verbatim>\<open>Record<string, number>\<close> is a partial map from strings; a missing key is
  \<^verbatim>\<open>undefined\<close> in the source and \<open>None\<close> here.
\<close>

subsection \<open>Type definitions\<close>

record ErrorBucket =
  min_bucket :: rat
  max_bucket :: rat
  deduction :: rat

record AdminRules =
  metrics :: "string \<rightharpoonup> ErrorBucket list"

record RecruiterRules =
  overdue_training_penalty_per :: rat
  eda_penalty :: "string \<rightharpoonup> rat"
  retraining_penalty :: "string \<rightharpoonup> rat"

record Weights =
  admin_weight :: rat
  supervisor_weight :: rat
  recruiter_weight :: rat

record RubricV1 =
  weights :: Weights
  supervisor_rating_map :: "string \<rightharpoonup> rat"
  supervisor_metrics :: "string list"
  admin_rules :: AdminRules
  recruiter_rules :: RecruiterRules

subsection \<open>Deduction tracking\<close>

datatype DeductionValue = NumberValue rat | StringValue string

record Deduction =
  metric :: string
  value_of :: DeductionValue
  deduction_points :: rat
  rule_id :: string

record DeductionsBreakdown =
  admin :: "Deduction list"
  supervisor :: "Deduction list"
  recruiter :: "Deduction list"

subsection \<open>Submission payloads\<close>

record SupervisorSubmissionPayload =
  attitude :: string
  reliability :: string
  proactivity :: string
  flexibility :: string
  individual_interaction :: string

record AdminSubmissionPayload =
  isp_goal_errors :: rat
  isp_behavior_errors :: rat
  mar_errors :: rat
  attendance_tardies_callouts :: rat
  attendance_ncns :: rat
  individual_interaction_admin :: "string option"

record RecruiterSubmissionPayload =
  overdue_trainings :: rat
  retrainings :: rat
  edas_past_6_months :: rat

subsection \<open>Default rubric\<close>

definition default_buckets :: "ErrorBucket list" where
  "default_buckets =
     [\<lparr>min_bucket = 1, max_bucket = 2, deduction = 5\<rparr>,
      \<lparr>min_bucket = 3, max_bucket = 5, deduction = 10\<rparr>,
      \<lparr>min_bucket = 6, max_bucket = 999, deduction = 20\<rparr>]"

definition DEFAULT_RUBRIC_V1 :: RubricV1 where
  "DEFAULT_RUBRIC_V1 =
     \<lparr>weights = \<lparr>admin_weight = 4 / 10, supervisor_weight = 4 / 10, recruiter_weight = 2 / 10\<rparr>,
      supervisor_rating_map =
        [''Outstanding'' \<mapsto> 0,
         ''Exceeds Expectations'' \<mapsto> 3,
         ''Meets Expectations'' \<mapsto> 8,
         ''Needs Improvement'' \<mapsto> 13,
         ''Unsatisfactory'' \<mapsto> 20],
      supervisor_metrics =
        [''attitude'', ''reliability'', ''proactivity'', ''flexibility'',
         ''individual_interaction''],
      admin_rules =
        \<lparr>metrics =
           [''isp_goal_errors'' \<mapsto> default_buckets,
            ''isp_behavior_errors'' \<mapsto> default_buckets,
            ''mar_errors'' \<mapsto> default_buckets,
            ''attendance_tardies_callouts'' \<mapsto> default_buckets,
            ''attendance_ncns'' \<mapsto> default_buckets]\<rparr>,
      recruiter_rules =
        \<lparr>overdue_training_penalty_per = 15,
         eda_penalty = [''1'' \<mapsto> 40, ''2+'' \<mapsto> 80],
         retraining_penalty = [''1'' \<mapsto> 5, ''2+'' \<mapsto> 10]\<rparr>\<rparr>"

subsection \<open>Utility functions\<close>

text \<open>
  The \<^verbatim>\<open>for\<close> loop of \<^verbatim>\<open>findDeductionForCount\<close>: it returns from inside the loop at
  the first bucket whose closed range holds the count; \<open>None\<close> is falling out of the loop.
\<close>

fun scan_buckets :: "rat \<Rightarrow> ErrorBucket list \<Rightarrow> rat option" where
  "scan_buckets cnt [] = None"
| "scan_buckets cnt (bucket # rest) =
     (if cnt \<ge> min_bucket bucket \<and> cnt \<le> max_bucket bucket then Some (deduction bucket)
      else scan_buckets cnt rest)"

definition findDeductionForCount :: "rat \<Rightarrow> ErrorBucket list \<Rightarrow> rat" where
  "findDeductionForCount cnt buckets =
     (if cnt = 0 then 0
      else case scan_buckets cnt buckets of
        Some d \<Rightarrow> d
      | None \<Rightarrow>
          if length buckets > 0 \<and> cnt > max_bucket (buckets ! (length buckets - 1))
          then deduction (buckets ! (length buckets - 1))
          else 0)"

definition findTieredPenalty :: "rat \<Rightarrow> (string \<rightharpoonup> rat) \<Rightarrow> rat" where
  "findTieredPenalty cnt tiers =
     (if cnt = 0 then 0
      else if cnt = 1 \<and> tiers ''1'' \<noteq> None then the (tiers ''1'')
      else if cnt \<ge> 2 \<and> tiers ''2+'' \<noteq> None then the (tiers ''2+'')
      else 0)"

section \<open>Double-precision numbers\<close>

text \<open>
  The values of an IEEE-754 binary64 number: the finite ones are rationals (the two zeros
  are not told apart), and there are the two infinities and NaN.
\<close>

datatype number = Finite rat | PosInfinity | NegInfinity | NaN

text \<open>The number of binary digits of a natural number.\<close>

fun bit_length :: "nat \<Rightarrow> nat" where
  "bit_length n = (if n = 0 then 0 else Suc (bit_length (n div 2)))"

declare bit_length.simps [simp del]

definition pow2 :: "int \<Rightarrow> rat" where
  "pow2 k = (if 0 \<le> k then 2 ^ nat k else 1 / 2 ^ nat (- k))"

text \<open>The binary exponent of a positive rational \<open>x\<close>: the \<open>e\<close> with \<open>2^e \<le> x < 2^(e+1)\<close>.\<close>

definition ilog2 :: "rat \<Rightarrow> int" where
  "ilog2 x =
     (if 1 \<le> x then int (bit_length (nat \<lfloor>x\<rfloor>)) - 1
      else - int (bit_length (nat (\<lceil>1 / x\<rceil> - 1))))"

definition round_half_even :: "rat \<Rightarrow> int" where
  "round_half_even x =
     (let f = \<lfloor>x\<rfloor>; d = x - of_int f in
      if d < 1 / 2 then f
      else if d > 1 / 2 then f + 1
      else if even f then f else f + 1)"

text \<open>
  The double nearest to a rational, a tie going to the even significand: the significand
  has 53 binary digits, the least exponent of a unit in the last place is -1074
  (subnormal numbers), and a result of magnitude \<open>2^1024\<close> or more is an infinity.  This
  is the value a decimal literal or a JSON number has as a \<^verbatim>\<open>number\<close>, and the
  rounding after each arithmetic operation.
\<close>

definition double_of :: "rat \<Rightarrow> number" where
  "double_of x =
     (if x = 0 then Finite 0
      else
        let a = \<bar>x\<bar>;
            q = max (ilog2 a) (- 1022) - 52;
            y = of_int (round_half_even (a / pow2 q)) * pow2 q
        in if y \<ge> pow2 1024 then (if x > 0 then PosInfinity else NegInfinity)
           else Finite (if x > 0 then y else - y))"

definition representable :: "rat \<Rightarrow> bool" where
  "representable x \<longleftrightarrow> double_of x = Finite x"

text \<open>The operators \<^verbatim>\<open>*\<close> and \<^verbatim>\<open>+\<close> on numbers.\<close>

fun number_times :: "number \<Rightarrow> number \<Rightarrow> number" where
  "number_times NaN y = NaN"
| "number_times x NaN = NaN"
| "number_times (Finite x) (Finite y) = double_of (x * y)"
| "number_times (Finite x) PosInfinity =
     (if x = 0 then NaN else if x > 0 then PosInfinity else NegInfinity)"
| "number_times (Finite x) NegInfinity =
     (if x = 0 then NaN else if x > 0 then NegInfinity else PosInfinity)"
| "number_times PosInfinity (Finite y) =
     (if y = 0 then NaN else if y > 0 then PosInfinity else NegInfinity)"
| "number_times NegInfinity (Finite y) =
     (if y = 0 then NaN else if y > 0 then NegInfinity else PosInfinity)"
| "number_times PosInfinity PosInfinity = PosInfinity"
| "number_times PosInfinity NegInfinity = NegInfinity"
| "number_times NegInfinity PosInfinity = NegInfinity"
| "number_times NegInfinity NegInfinity = PosInfinity"

fun number_plus :: "number \<Rightarrow> number \<Rightarrow> number" where
  "number_plus NaN y = NaN"
| "number_plus x NaN = NaN"
| "number_plus (Finite x) (Finite y) = double_of (x + y)"
| "number_plus (Finite x) PosInfinity = PosInfinity"
| "number_plus (Finite x) NegInfinity = NegInfinity"
| "number_plus PosInfinity (Finite y) = PosInfinity"
| "number_plus NegInfinity (Finite y) = NegInfinity"
| "number_plus PosInfinity PosInfinity = PosInfinity"
| "number_plus PosInfinity NegInfinity = NaN"
| "number_plus NegInfinity PosInfinity = NaN"
| "number_plus NegInfinity NegInfinity = NegInfinity"

text \<open>
  \<^verbatim>\<open>Math.round\<close>: the integer closest to the argument, and of two integers equally
  close the one towards plus infinity; an infinity and NaN are returned as they are.
\<close>

fun Math_round :: "number \<Rightarrow> number" where
  "Math_round (Finite x) =
     Finite (let f = of_int \<lfloor>x\<rfloor> in if x - f < 1 / 2 then f else f + 1)"
| "Math_round PosInfinity = PosInfinity"
| "Math_round NegInfinity = NegInfinity"
| "Math_round NaN = NaN"

section \<open>Scoring engine (src/lib/scoring/engine.ts)\<close>

subsection \<open>Types\<close>

text \<open>
  \<open>RubricVersionRow\<close> is a row of the result of the rubric query.  A row of the table
  \<^verbatim>\<open>rubric_versions\<close> itself also has the column \<^verbatim>\<open>effective_month\<close> that the query
  filters and orders by (the columns \<^verbatim>\<open>published_by_email\<close> and \<^verbatim>\<open>published_at\<close>
  are never read by the engine and are left out).
\<close>

record RubricVersionRow =
  rubric_version :: string
  rubric_json :: RubricV1

record rubric_versions_row =
  tbl_rubric_version :: string
  tbl_effective_month :: string
  tbl_rubric_json :: RubricV1

text \<open>
  A \<^verbatim>\<open>SubmissionRow\<close> carries a role and a payload; the engine casts the payload to
  the payload type of the role without a check.  The row is modelled as a tagged union, so
  the payload has the shape of its role: the engine trusts the store for that.
\<close>

datatype SubmissionRow =
  AdminSubmission AdminSubmissionPayload
| SupervisorSubmission SupervisorSubmissionPayload
| RecruiterSubmission RecruiterSubmissionPayload

datatype Role = RoleAdmin | RoleSupervisor | RoleRecruiter

fun role :: "SubmissionRow \<Rightarrow> Role" where
  "role (AdminSubmission p) = RoleAdmin"
| "role (SupervisorSubmission p) = RoleSupervisor"
| "role (RecruiterSubmission p) = RoleRecruiter"

record ComputedScore =
  adminScore :: "rat option"
  supervisorScore :: "rat option"
  recruiterScore :: "rat option"
  finalScore :: "number option"
  deductions_all :: DeductionsBreakdown
  rubricVersion :: string

text \<open>The value \<^verbatim>\<open>{ version, rubric }\<close> that \<^verbatim>\<open>getRubricForMonth\<close> returns.\<close>

record ResolvedRubric =
  version :: string
  rubric :: RubricV1

text \<open>The value \<^verbatim>\<open>{ score, deductions }\<close> that a category scorer returns.\<close>

record ScoreResult =
  score :: rat
  deductions :: "Deduction list"

subsection \<open>The store\<close>

text \<open>
  The three tables the engine touches.  Of \<^verbatim>\<open>submissions_raw\<close> only the columns of
  the engine's query are kept.  Timestamps are natural numbers.
\<close>

record submissions_raw_row =
  sub_month :: string
  sub_employee_id :: string
  sub_submission :: SubmissionRow

record scores_computed_row =
  sc_month :: string
  sc_employee_id :: string
  sc_area :: string
  sc_rubric_version :: string
  sc_admin_score :: "rat option"
  sc_supervisor_score :: "rat option"
  sc_recruiter_score :: "rat option"
  sc_final_score :: "number option"
  sc_deductions_json :: string
  sc_computed_at :: nat

record Database =
  rubric_versions :: "rubric_versions_row list"
  submissions_raw :: "submissions_raw_row list"
  scores_computed :: "scores_computed_row list"

subsection \<open>Rubric selection\<close>

text \<open>
  The query of \<^verbatim>\<open>getRubricForMonth\<close>:
  \<^verbatim>\<open>SELECT rubric_version, rubric_json FROM rubric_versions WHERE effective_month <= $1
  ORDER BY effective_month DESC LIMIT 1\<close>.
  Months are text and are compared as text, character by character.  Among rows with the
  same \<^verbatim>\<open>effective_month\<close> SQL leaves the order open; the model takes the one that
  a stable ascending sort puts last.
\<close>

definition select_rubric_versions :: "rubric_versions_row list \<Rightarrow> string \<Rightarrow> RubricVersionRow list" where
  "select_rubric_versions tbl month =
     map (\<lambda>r. \<lparr>rubric_version = tbl_rubric_version r, rubric_json = tbl_rubric_json r\<rparr>)
       (take 1 (rev (sort_key tbl_effective_month
          (filter (\<lambda>r. tbl_effective_month r \<le> month) tbl))))"

definition getRubricForMonth :: "rubric_versions_row list \<Rightarrow> string \<Rightarrow> ResolvedRubric" where
  "getRubricForMonth tbl month =
     (let rows = select_rubric_versions tbl month in
      if length rows = 0 then \<lparr>version = ''default'', rubric = DEFAULT_RUBRIC_V1\<rparr>
      else \<lparr>version = rubric_version (rows ! 0), rubric = rubric_json (rows ! 0)\<rparr>)"

subsection \<open>Category score calculations\<close>

text \<open>
  Each scorer keeps two local variables, the list \<^verbatim>\<open>deductions\<close> and the number
  \<^verbatim>\<open>totalDeduction\<close>; the loops pass them along (the list as \<open>ds\<close>).
\<close>

text \<open>
  The \<^verbatim>\<open>return\<close> statement the three scorers share:
  \<^verbatim>\<open>{ score: Math.max(0, 100 - totalDeduction), deductions }\<close>.
\<close>

fun score_result :: "Deduction list \<times> rat \<Rightarrow> ScoreResult" where
  "score_result (ds, totalDeduction) = \<lparr>score = max 0 (100 - totalDeduction), deductions = ds\<rparr>"

text \<open>The pairs \<^verbatim>\<open>(metric, payload[metric])\<close> that the supervisor loop visits, in its order.\<close>

definition supervisor_ratings :: "SupervisorSubmissionPayload \<Rightarrow> (string \<times> string) list" where
  "supervisor_ratings payload =
     [(''attitude'', attitude payload),
      (''reliability'', reliability payload),
      (''proactivity'', proactivity payload),
      (''flexibility'', flexibility payload),
      (''individual_interaction'', individual_interaction payload)]"

text \<open>\<^verbatim>\<open>rubric.supervisor_rating_map[rating] ?? 0\<close>\<close>

definition rating_deduction :: "RubricV1 \<Rightarrow> string \<Rightarrow> rat" where
  "rating_deduction rb rating =
     (case supervisor_rating_map rb rating of None \<Rightarrow> 0 | Some v \<Rightarrow> v)"

fun supervisor_loop ::
  "RubricV1 \<Rightarrow> (string \<times> string) list \<Rightarrow> Deduction list \<times> rat \<Rightarrow> Deduction list \<times> rat" where
  "supervisor_loop rb [] (ds, totalDeduction) = (ds, totalDeduction)"
| "supervisor_loop rb ((m, rating) # rest) (ds, totalDeduction) =
     (let deductionPoints = rating_deduction rb rating in
      if deductionPoints > 0
      then supervisor_loop rb rest
             (ds @ [\<lparr>metric = m, value_of = StringValue rating,
                     deduction_points = deductionPoints,
                     rule_id = ''supervisor_rating_'' @ m\<rparr>],
              totalDeduction + deductionPoints)
      else supervisor_loop rb rest (ds, totalDeduction))"

definition calculateSupervisorScore :: "SupervisorSubmissionPayload \<Rightarrow> RubricV1 \<Rightarrow> ScoreResult" where
  "calculateSupervisorScore payload rb =
     score_result (supervisor_loop rb (supervisor_ratings payload) ([], 0))"

text \<open>\<^verbatim>\<open>Object.entries(metricMap)\<close>: the entries in insertion order.\<close>

definition metricMap :: "AdminSubmissionPayload \<Rightarrow> (string \<times> rat) list" where
  "metricMap payload =
     [(''isp_goal_errors'', isp_goal_errors payload),
      (''isp_behavior_errors'', isp_behavior_errors payload),
      (''mar_errors'', mar_errors payload),
      (''attendance_tardies_callouts'', attendance_tardies_callouts payload),
      (''attendance_ncns'', attendance_ncns payload)]"

fun admin_loop ::
  "RubricV1 \<Rightarrow> (string \<times> rat) list \<Rightarrow> Deduction list \<times> rat \<Rightarrow> Deduction list \<times> rat" where
  "admin_loop rb [] (ds, totalDeduction) = (ds, totalDeduction)"
| "admin_loop rb ((m, cnt) # rest) (ds, totalDeduction) =
     (case metrics (admin_rules rb) m of
        None \<Rightarrow> admin_loop rb rest (ds, totalDeduction)
      | Some buckets \<Rightarrow>
          (let deductionPoints = findDeductionForCount cnt buckets in
           if deductionPoints > 0
           then admin_loop rb rest
                  (ds @ [\<lparr>metric = m, value_of = NumberValue cnt,
                          deduction_points = deductionPoints,
                          rule_id = ''admin_'' @ m @ ''_bucket''\<rparr>],
                   totalDeduction + deductionPoints)
           else admin_loop rb rest (ds, totalDeduction)))"

definition calculateAdminScore :: "AdminSubmissionPayload \<Rightarrow> RubricV1 \<Rightarrow> ScoreResult" where
  "calculateAdminScore payload rb =
     score_result (admin_loop rb (metricMap payload) ([], 0))"

text \<open>The three blocks of the recruiter scorer, each a step on the two local variables.\<close>

fun overdue_rule ::
  "RecruiterSubmissionPayload \<Rightarrow> RubricV1 \<Rightarrow> Deduction list \<times> rat \<Rightarrow> Deduction list \<times> rat" where
  "overdue_rule payload rb (ds, totalDeduction) =
     (if overdue_trainings payload > 0
      then (let deductionPoints =
                  overdue_trainings payload * overdue_training_penalty_per (recruiter_rules rb)
            in (ds @ [\<lparr>metric = ''overdue_trainings'',
                       value_of = NumberValue (overdue_trainings payload),
                       deduction_points = deductionPoints,
                       rule_id = ''recruiter_overdue_trainings''\<rparr>],
                totalDeduction + deductionPoints))
      else (ds, totalDeduction))"

fun eda_rule ::
  "RecruiterSubmissionPayload \<Rightarrow> RubricV1 \<Rightarrow> Deduction list \<times> rat \<Rightarrow> Deduction list \<times> rat" where
  "eda_rule payload rb (ds, totalDeduction) =
     (if edas_past_6_months payload > 0
      then (let deductionPoints =
                  findTieredPenalty (edas_past_6_months payload) (eda_penalty (recruiter_rules rb))
            in (ds @ [\<lparr>metric = ''edas_past_6_months'',
                       value_of = NumberValue (edas_past_6_months payload),
                       deduction_points = deductionPoints,
                       rule_id = ''recruiter_eda_penalty''\<rparr>],
                totalDeduction + deductionPoints))
      else (ds, totalDeduction))"

fun retraining_rule ::
  "RecruiterSubmissionPayload \<Rightarrow> RubricV1 \<Rightarrow> Deduction list \<times> rat \<Rightarrow> Deduction list \<times> rat" where
  "retraining_rule payload rb (ds, totalDeduction) =
     (if retrainings payload > 0
      then (let deductionPoints =
                  findTieredPenalty (retrainings payload) (retraining_penalty (recruiter_rules rb))
            in (ds @ [\<lparr>metric = ''retrainings'',
                       value_of = NumberValue (retrainings payload),
                       deduction_points = deductionPoints,
                       rule_id = ''recruiter_retraining_penalty''\<rparr>],
                totalDeduction + deductionPoints))
      else (ds, totalDeduction))"

definition calculateRecruiterScore :: "RecruiterSubmissionPayload \<Rightarrow> RubricV1 \<Rightarrow> ScoreResult" where
  "calculateRecruiterScore payload rb =
     score_result
       (retraining_rule payload rb (eda_rule payload rb (overdue_rule payload rb ([], 0))))"

subsection \<open>Main scoring function\<close>

text \<open>
  \<^verbatim>\<open>SELECT role, payload_json FROM submissions_raw WHERE month = $1 AND employee_id = $2\<close>,
  the rows in the order of the table.
\<close>

definition select_submissions :: "submissions_raw_row list \<Rightarrow> string \<Rightarrow> string \<Rightarrow> SubmissionRow list" where
  "select_submissions tbl month employeeId =
     map sub_submission
       (filter (\<lambda>r. sub_month r = month \<and> sub_employee_id r = employeeId) tbl)"

text \<open>
  The loop over the submissions.  Its state is the record that is returned in the end: the
  three category scores and the deductions breakdown are the loop's local variables.
\<close>

fun score_submission :: "RubricV1 \<Rightarrow> SubmissionRow \<Rightarrow> ComputedScore \<Rightarrow> ComputedScore" where
  "score_submission rb (AdminSubmission p) st =
     (let result = calculateAdminScore p rb in
      st\<lparr>adminScore := Some (score result),
         deductions_all := (deductions_all st)\<lparr>admin := deductions result\<rparr>\<rparr>)"
| "score_submission rb (SupervisorSubmission p) st =
     (let result = calculateSupervisorScore p rb in
      st\<lparr>supervisorScore := Some (score result),
         deductions_all := (deductions_all st)\<lparr>supervisor := deductions result\<rparr>\<rparr>)"
| "score_submission rb (RecruiterSubmission p) st =
     (let result = calculateRecruiterScore p rb in
      st\<lparr>recruiterScore := Some (score result),
         deductions_all := (deductions_all st)\<lparr>recruiter := deductions result\<rparr>\<rparr>)"

fun score_submissions :: "RubricV1 \<Rightarrow> SubmissionRow list \<Rightarrow> ComputedScore \<Rightarrow> ComputedScore" where
  "score_submissions rb [] st = st"
| "score_submissions rb (submission # rest) st =
     score_submissions rb rest (score_submission rb submission st)"

text \<open>
  The argument of \<^verbatim>\<open>Math.round\<close> in the final score:
  \<^verbatim>\<open>adminScore * w.admin + supervisorScore * w.supervisor + recruiterScore * w.recruiter\<close>,
  evaluated from left to right on doubles.  A score or a weight of the model enters as the
  double nearest to it (a score that is an integer of moderate size is that double).
\<close>

definition weighted_sum :: "RubricV1 \<Rightarrow> rat \<Rightarrow> rat \<Rightarrow> rat \<Rightarrow> number" where
  "weighted_sum rb a s r =
     number_plus
       (number_plus
          (number_times (double_of a) (double_of (admin_weight (weights rb))))
          (number_times (double_of s) (double_of (supervisor_weight (weights rb)))))
       (number_times (double_of r) (double_of (recruiter_weight (weights rb))))"

definition final_score ::
  "RubricV1 \<Rightarrow> rat option \<Rightarrow> rat option \<Rightarrow> rat option \<Rightarrow> number option" where
  "final_score rb a s r =
     (if a \<noteq> None \<and> s \<noteq> None \<and> r \<noteq> None
      then Some (Math_round (weighted_sum rb (the a) (the s) (the r)))
      else None)"

text \<open>
  The scores as they stand after the final score is computed and before the upsert: the
  record that is returned in the end.
\<close>

definition computed_scores :: "Database \<Rightarrow> string \<Rightarrow> string \<Rightarrow> ComputedScore" where
  "computed_scores db month employeeId =
     (let resolved = getRubricForMonth (rubric_versions db) month;
          rows = select_submissions (submissions_raw db) month employeeId;
          st = score_submissions (rubric resolved) rows
                 \<lparr>adminScore = None, supervisorScore = None, recruiterScore = None,
                  finalScore = None,
                  deductions_all = \<lparr>admin = [], supervisor = [], recruiter = []\<rparr>,
                  rubricVersion = version resolved\<rparr>
      in st\<lparr>finalScore :=
              final_score (rubric resolved)
                (adminScore st) (supervisorScore st) (recruiterScore st)\<rparr>)"

text \<open>
  The upsert into \<^verbatim>\<open>scores_computed\<close>, keyed by month and employee: a new row is
  inserted; on a conflict the existing row keeps its \<^verbatim>\<open>area\<close> and takes the other
  columns of the new one.
\<close>

definition same_key :: "scores_computed_row \<Rightarrow> scores_computed_row \<Rightarrow> bool" where
  "same_key a b \<longleftrightarrow> sc_month a = sc_month b \<and> sc_employee_id a = sc_employee_id b"

definition upsert_scores_computed ::
  "scores_computed_row \<Rightarrow> scores_computed_row list \<Rightarrow> scores_computed_row list" where
  "upsert_scores_computed new tbl =
     (if list_ex (same_key new) tbl
      then map (\<lambda>old. if same_key new old
                      then old\<lparr>sc_rubric_version := sc_rubric_version new,
                              sc_admin_score := sc_admin_score new,
                              sc_supervisor_score := sc_supervisor_score new,
                              sc_recruiter_score := sc_recruiter_score new,
                              sc_final_score := sc_final_score new,
                              sc_deductions_json := sc_deductions_json new,
                              sc_computed_at := sc_computed_at new\<rparr>
                      else old) tbl
      else tbl @ [new])"

text \<open>
  \<^verbatim>\<open>computeScoresForEmployee\<close> on a store that answers every query and takes the
  row (the score columns of \<^verbatim>\<open>scores_computed\<close> are \<^verbatim>\<open>INTEGER\<close>; a store that
  refuses the row makes the call throw once the scores are computed).  The library
  function \<^verbatim>\<open>JSON.stringify\<close> and the clock of the store (\<^verbatim>\<open>NOW()\<close>) are
  parameters.  The result is the returned record and the store after the upsert.
\<close>

definition computeScoresForEmployee ::
  "(DeductionsBreakdown \<Rightarrow> string) \<Rightarrow> nat \<Rightarrow> Database \<Rightarrow> string \<Rightarrow> string \<Rightarrow> string
     \<Rightarrow> ComputedScore \<times> Database" where
  "computeScoresForEmployee stringify now db month employeeId area =
     (let result = computed_scores db month employeeId
      in (result,
          db\<lparr>scores_computed :=
               upsert_scores_computed
                 \<lparr>sc_month = month, sc_employee_id = employeeId, sc_area = area,
                  sc_rubric_version = rubricVersion result,
                  sc_admin_score = adminScore result,
                  sc_supervisor_score = supervisorScore result,
                  sc_recruiter_score = recruiterScore result,
                  sc_final_score = finalScore result,
                  sc_deductions_json = stringify (deductions_all result),
                  sc_computed_at = now\<rparr>
                 (scores_computed db)\<rparr>))"

section \<open>Descriptions used in the statements\<close>

text \<open>
  What each scorer computes for one metric, written apart from the loops: the entry a
  metric gets when it gets one, and the deduction computed for it.
\<close>

definition supervisor_entry :: "RubricV1 \<Rightarrow> string \<times> string \<Rightarrow> Deduction" where
  "supervisor_entry rb mr =
     \<lparr>metric = fst mr, value_of = StringValue (snd mr),
      deduction_points = rating_deduction rb (snd mr),
      rule_id = ''supervisor_rating_'' @ fst mr\<rparr>"

text \<open>
  The deduction of an admin metric: the bucket lookup, and nothing for a metric that the
  rubric does not list (the loop goes on to the next metric).
\<close>

definition admin_deduction :: "RubricV1 \<Rightarrow> string \<times> rat \<Rightarrow> rat" where
  "admin_deduction rb mc =
     (case metrics (admin_rules rb) (fst mc) of
        None \<Rightarrow> 0
      | Some buckets \<Rightarrow> findDeductionForCount (snd mc) buckets)"

definition admin_entry :: "RubricV1 \<Rightarrow> string \<times> rat \<Rightarrow> Deduction" where
  "admin_entry rb mc =
     \<lparr>metric = fst mc, value_of = NumberValue (snd mc),
      deduction_points = admin_deduction rb mc,
      rule_id = ''admin_'' @ fst mc @ ''_bucket''\<rparr>"

text \<open>
  The three rules of the recruiter scorer in their order, each with the count it looks at,
  the deduction it computes from the count, and its rule identifier.
\<close>

record recruiter_rule =
  rule_metric :: string
  rule_count :: rat
  rule_deduction :: rat
  rule_name :: string

definition recruiter_rule_table :: "RecruiterSubmissionPayload \<Rightarrow> RubricV1 \<Rightarrow> recruiter_rule list" where
  "recruiter_rule_table payload rb =
     [\<lparr>rule_metric = ''overdue_trainings'', rule_count = overdue_trainings payload,
       rule_deduction = overdue_trainings payload * overdue_training_penalty_per (recruiter_rules rb),
       rule_name = ''recruiter_overdue_trainings''\<rparr>,
      \<lparr>rule_metric = ''edas_past_6_months'', rule_count = edas_past_6_months payload,
       rule_deduction = findTieredPenalty (edas_past_6_months payload) (eda_penalty (recruiter_rules rb)),
       rule_name = ''recruiter_eda_penalty''\<rparr>,
      \<lparr>rule_metric = ''retrainings'', rule_count = retrainings payload,
       rule_deduction = findTieredPenalty (retrainings payload) (retraining_penalty (recruiter_rules rb)),
       rule_name = ''recruiter_retraining_penalty''\<rparr>]"

definition recruiter_entry :: "recruiter_rule \<Rightarrow> Deduction" where
  "recruiter_entry rl =
     \<lparr>metric = rule_metric rl, value_of = NumberValue (rule_count rl),
      deduction_points = rule_deduction rl, rule_id = rule_name rl\<rparr>"

text \<open>
  Reading back the row of an employee and month from \<^verbatim>\<open>scores_computed\<close>.
\<close>

definition lookup_scores_computed ::
  "scores_computed_row list \<Rightarrow> string \<Rightarrow> string \<Rightarrow> scores_computed_row option" where
  "lookup_scores_computed tbl month employeeId =
     find (\<lambda>r. sc_month r = month \<and> sc_employee_id r = employeeId) tbl"

section \<open>Example inputs\<close>

definition rubric_negative_penalty :: RubricV1 where
  "rubric_negative_penalty =
     DEFAULT_RUBRIC_V1\<lparr>recruiter_rules :=
       (recruiter_rules DEFAULT_RUBRIC_V1)\<lparr>overdue_training_penalty_per := - 15\<rparr>\<rparr>"

definition rubric_no_single_eda :: RubricV1 where
  "rubric_no_single_eda =
     DEFAULT_RUBRIC_V1\<lparr>recruiter_rules :=
       (recruiter_rules DEFAULT_RUBRIC_V1)\<lparr>eda_penalty := [''2+'' \<mapsto> 80]\<rparr>\<rparr>"

definition rubric_bonus_rating :: RubricV1 where
  "rubric_bonus_rating =
     DEFAULT_RUBRIC_V1\<lparr>supervisor_rating_map :=
       (supervisor_rating_map DEFAULT_RUBRIC_V1)(''Outstanding'' \<mapsto> - 5)\<rparr>"

definition all_rated :: "string \<Rightarrow> SupervisorSubmissionPayload" where
  "all_rated label =
     \<lparr>attitude = label, reliability = label, proactivity = label, flexibility = label,
      individual_interaction = label\<rparr>"

definition example_versions :: "rubric_versions_row list" where
  "example_versions =
     [\<lparr>tbl_rubric_version = ''2025.01'', tbl_effective_month = ''2025-01'',
       tbl_rubric_json = DEFAULT_RUBRIC_V1\<rparr>,
      \<lparr>tbl_rubric_version = ''2025.06'', tbl_effective_month = ''2025-06'',
       tbl_rubric_json = rubric_no_single_eda\<rparr>]"

text \<open>An admin payload with two ISP goal errors and six MAR errors.\<close>

definition example_admin :: "string option \<Rightarrow> AdminSubmissionPayload" where
  "example_admin interaction =
     \<lparr>isp_goal_errors = 2, isp_behavior_errors = 0, mar_errors = 6,
      attendance_tardies_callouts = 0, attendance_ncns = 0,
      individual_interaction_admin = interaction\<rparr>"

text \<open>The default rubric without bucket rules for MAR errors.\<close>

definition rubric_without_mar :: RubricV1 where
  "rubric_without_mar =
     DEFAULT_RUBRIC_V1\<lparr>admin_rules :=
       \<lparr>metrics = (metrics (admin_rules DEFAULT_RUBRIC_V1))(''mar_errors'' := None)\<rparr>\<rparr>"

text \<open>The default rubric with the weights one half, one quarter and one quarter.\<close>

definition rubric_half_weights :: RubricV1 where
  "rubric_half_weights =
     DEFAULT_RUBRIC_V1\<lparr>weights :=
       \<lparr>admin_weight = 1 / 2, supervisor_weight = 1 / 4, recruiter_weight = 1 / 4\<rparr>\<rparr>"

text \<open>
  A store: employee E1 has all three submissions for 2025-03 and for 2025-10, employee E2
  has only the supervisor's for 2025-03.  A second store has the same rows in the reverse
  order and an old computed row for E1.
\<close>

definition example_submissions :: "submissions_raw_row list" where
  "example_submissions =
     [\<lparr>sub_month = ''2025-03'', sub_employee_id = ''E1'',
       sub_submission = AdminSubmission
         \<lparr>isp_goal_errors = 2, isp_behavior_errors = 1, mar_errors = 0,
          attendance_tardies_callouts = 0, attendance_ncns = 0,
          individual_interaction_admin = None\<rparr>\<rparr>,
      \<lparr>sub_month = ''2025-03'', sub_employee_id = ''E2'',
       sub_submission = SupervisorSubmission (all_rated ''Meets Expectations'')\<rparr>,
      \<lparr>sub_month = ''2025-03'', sub_employee_id = ''E1'',
       sub_submission = SupervisorSubmission (all_rated ''Exceeds Expectations'')\<rparr>,
      \<lparr>sub_month = ''2025-03'', sub_employee_id = ''E1'',
       sub_submission = RecruiterSubmission
         \<lparr>overdue_trainings = 2, retrainings = 0, edas_past_6_months = 0\<rparr>\<rparr>,
      \<lparr>sub_month = ''2025-10'', sub_employee_id = ''E1'',
       sub_submission = AdminSubmission
         \<lparr>isp_goal_errors = 0, isp_behavior_errors = 0, mar_errors = 0,
          attendance_tardies_callouts = 0, attendance_ncns = 0,
          individual_interaction_admin = None\<rparr>\<rparr>,
      \<lparr>sub_month = ''2025-10'', sub_employee_id = ''E1'',
       sub_submission = SupervisorSubmission (all_rated ''Outstanding'')\<rparr>,
      \<lparr>sub_month = ''2025-10'', sub_employee_id = ''E1'',
       sub_submission = RecruiterSubmission
         \<lparr>overdue_trainings = 2, retrainings = 0, edas_past_6_months = 0\<rparr>\<rparr>]"

definition example_db :: Database where
  "example_db =
     \<lparr>rubric_versions = example_versions @
        [\<lparr>tbl_rubric_version = ''2025.09'', tbl_effective_month = ''2025-09'',
          tbl_rubric_json = rubric_half_weights\<rparr>],
      submissions_raw = example_submissions,
      scores_computed = []\<rparr>"

definition example_db_reordered :: Database where
  "example_db_reordered =
     \<lparr>rubric_versions = rev (rubric_versions example_db),
      submissions_raw = rev example_submissions,
      scores_computed =
        [\<lparr>sc_month = ''2025-03'', sc_employee_id = ''E1'', sc_area = ''Price'',
          sc_rubric_version = ''default'', sc_admin_score = None,
          sc_supervisor_score = Some 60, sc_recruiter_score = None, sc_final_score = None,
          sc_deductions_json = '''', sc_computed_at = 7\<rparr>]\<rparr>"

text \<open>
  The default rubric with the weights 0.35, 0.35 and 0.3, and a store in which employee E3
  has the three submissions for 2025-11: an admin submission with the counts 6, 6, 3, 1
  and 0, a supervisor submission rated "Exceeds Expectations" throughout, and a recruiter
  submission with two overdue trainings and one EDA.
\<close>

definition rubric_weights_035 :: RubricV1 where
  "rubric_weights_035 =
     DEFAULT_RUBRIC_V1\<lparr>weights :=
       \<lparr>admin_weight = 35 / 100, supervisor_weight = 35 / 100, recruiter_weight = 30 / 100\<rparr>\<rparr>"

definition example_db_035 :: Database where
  "example_db_035 =
     \<lparr>rubric_versions =
        [\<lparr>tbl_rubric_version = ''2025.11'', tbl_effective_month = ''2025-11'',
          tbl_rubric_json = rubric_weights_035\<rparr>],
      submissions_raw =
        [\<lparr>sub_month = ''2025-11'', sub_employee_id = ''E3'',
          sub_submission = AdminSubmission
            \<lparr>isp_goal_errors = 6, isp_behavior_errors = 6, mar_errors = 3,
             attendance_tardies_callouts = 1, attendance_ncns = 0,
             individual_interaction_admin = None\<rparr>\<rparr>,
         \<lparr>sub_month = ''2025-11'', sub_employee_id = ''E3'',
          sub_submission = SupervisorSubmission (all_rated ''Exceeds Expectations'')\<rparr>,
         \<lparr>sub_month = ''2025-11'', sub_employee_id = ''E3'',
          sub_submission = RecruiterSubmission
            \<lparr>overdue_trainings = 2, retrainings = 0, edas_past_6_months = 1\<rparr>\<rparr>],
      scores_computed = []\<rparr>"

section \<open>Properties of the lookup primitives\<close>

lemma scan_buckets_None:
  "scan_buckets cnt buckets = None \<longleftrightarrow>
     (\<forall>b \<in> set buckets. \<not> (min_bucket b \<le> cnt \<and> cnt \<le> max_bucket b))"
  by (induction buckets) auto

lemma scan_buckets_first:
  "i < length buckets \<Longrightarrow>
   min_bucket (buckets ! i) \<le> cnt \<and> cnt \<le> max_bucket (buckets ! i) \<Longrightarrow>
   \<forall>j < i. \<not> (min_bucket (buckets ! j) \<le> cnt \<and> cnt \<le> max_bucket (buckets ! j)) \<Longrightarrow>
   scan_buckets cnt buckets = Some (deduction (buckets ! i))"
proof (induction buckets arbitrary: i)
  case Nil
  then show ?case by simp
next
  case (Cons b bs)
  show ?case
  proof (cases i)
    case 0
    with Cons.prems show ?thesis by simp
  next
    case (Suc k)
    from Cons.prems(3) Suc have head: "\<not> (min_bucket b \<le> cnt \<and> cnt \<le> max_bucket b)"
      by (metis nth_Cons_0 zero_less_Suc)
    have earlier: "\<forall>j < k. \<not> (min_bucket (bs ! j) \<le> cnt \<and> cnt \<le> max_bucket (bs ! j))"
    proof (intro allI impI)
      fix j assume "j < k"
      then have "Suc j < i" using Suc by simp
      with Cons.prems(3) show "\<not> (min_bucket (bs ! j) \<le> cnt \<and> cnt \<le> max_bucket (bs ! j))"
        by (metis nth_Cons_Suc)
    qed
    from Cons.prems Suc have "k < length bs"
      and "min_bucket (bs ! k) \<le> cnt \<and> cnt \<le> max_bucket (bs ! k)" by simp_all
    from Cons.IH[OF this earlier] head Suc show ?thesis by auto
  qed
qed

text \<open>
  Claim C4.  \<^verbatim>\<open>findDeductionForCount\<close> returns 0 for the count 0 whatever the
  buckets, and 0 for an empty bucket list.  For a count other than 0 it returns the
  deduction of the first bucket, in list order, whose range \<open>min \<le> count \<le> max\<close> holds
  the count; and when no bucket holds the count and the count is above the \<open>max\<close> of the
  last bucket, it returns the deduction of the last bucket.
\<close>

theorem findDeductionForCount_first_match:
  "findDeductionForCount 0 buckets = 0 \<and>
   findDeductionForCount cnt [] = 0 \<and>
   (cnt \<noteq> 0 \<longrightarrow> i < length buckets \<longrightarrow>
      min_bucket (buckets ! i) \<le> cnt \<and> cnt \<le> max_bucket (buckets ! i) \<longrightarrow>
      (\<forall>j < i. \<not> (min_bucket (buckets ! j) \<le> cnt \<and> cnt \<le> max_bucket (buckets ! j))) \<longrightarrow>
      findDeductionForCount cnt buckets = deduction (buckets ! i)) \<and>
   (cnt \<noteq> 0 \<longrightarrow> buckets \<noteq> [] \<longrightarrow>
      (\<forall>b \<in> set buckets. \<not> (min_bucket b \<le> cnt \<and> cnt \<le> max_bucket b)) \<longrightarrow>
      cnt > max_bucket (last buckets) \<longrightarrow>
      findDeductionForCount cnt buckets = deduction (last buckets))"
proof (intro conjI impI)
  show "findDeductionForCount 0 buckets = 0"
    by (simp add: findDeductionForCount_def)
  show "findDeductionForCount cnt [] = 0"
    by (simp add: findDeductionForCount_def)
next
  assume "cnt \<noteq> 0" "i < length buckets"
    "min_bucket (buckets ! i) \<le> cnt \<and> cnt \<le> max_bucket (buckets ! i)"
    "\<forall>j < i. \<not> (min_bucket (buckets ! j) \<le> cnt \<and> cnt \<le> max_bucket (buckets ! j))"
  then show "findDeductionForCount cnt buckets = deduction (buckets ! i)"
    by (simp add: findDeductionForCount_def scan_buckets_first)
next
  assume nz: "cnt \<noteq> 0" and ne: "buckets \<noteq> []"
    and nomatch: "\<forall>b \<in> set buckets. \<not> (min_bucket b \<le> cnt \<and> cnt \<le> max_bucket b)"
    and above: "cnt > max_bucket (last buckets)"
  from nomatch have "scan_buckets cnt buckets = None"
    by (simp add: scan_buckets_None)
  with nz ne above show "findDeductionForCount cnt buckets = deduction (last buckets)"
    by (simp add: findDeductionForCount_def last_conv_nth)
qed

theorem findDeductionForCount_first_match_witness:
  "findDeductionForCount 4 default_buckets = 10 \<and>
   findDeductionForCount 500 default_buckets = 20 \<and>
   findDeductionForCount 1000 default_buckets = 20 \<and>
   findDeductionForCount 0 default_buckets = 0"
proof -
  have m1: "(4::rat) \<noteq> 0" "(1::nat) < length default_buckets"
    "min_bucket (default_buckets ! 1) \<le> 4 \<and> 4 \<le> max_bucket (default_buckets ! 1)"
    "\<forall>j < (1::nat). \<not> (min_bucket (default_buckets ! j) \<le> 4 \<and> 4 \<le> max_bucket (default_buckets ! j))"
    by (simp_all add: default_buckets_def)
  have m2: "(500::rat) \<noteq> 0" "(2::nat) < length default_buckets"
    "min_bucket (default_buckets ! 2) \<le> 500 \<and> 500 \<le> max_bucket (default_buckets ! 2)"
    "\<forall>j < (2::nat). \<not> (min_bucket (default_buckets ! j) \<le> 500 \<and> 500 \<le> max_bucket (default_buckets ! j))"
    by (simp_all add: default_buckets_def less_Suc_eq numeral_2_eq_2)
  have m3: "(1000::rat) \<noteq> 0" "default_buckets \<noteq> []"
    "\<forall>b \<in> set default_buckets. \<not> (min_bucket b \<le> 1000 \<and> 1000 \<le> max_bucket b)"
    "1000 > max_bucket (last default_buckets)"
    by (simp_all add: default_buckets_def)
  from findDeductionForCount_first_match[of default_buckets 4 1] m1
  have "findDeductionForCount 4 default_buckets = 10"
    by (simp add: default_buckets_def)
  moreover from findDeductionForCount_first_match[of default_buckets 500 2] m2
  have "findDeductionForCount 500 default_buckets = 20"
    by (simp add: default_buckets_def)
  moreover from findDeductionForCount_first_match[of default_buckets 1000] m3
  have "findDeductionForCount 1000 default_buckets = 20"
    by (simp add: default_buckets_def)
  moreover from findDeductionForCount_first_match[of default_buckets]
  have "findDeductionForCount 0 default_buckets = 0" by simp
  ultimately show ?thesis by simp
qed

text \<open>
  Claim C5.  \<^verbatim>\<open>findTieredPenalty\<close> returns 0 for the count 0; the value under the key
  \<open>"1"\<close> for the count 1 when that key is present; the value under the key \<open>"2+"\<close> for
  a count of 2 or more when that key is present; and 0 in every other case.
\<close>

theorem findTieredPenalty_cases:
  "findTieredPenalty 0 tiers = 0 \<and>
   (tiers ''1'' = Some v \<longrightarrow> findTieredPenalty 1 tiers = v) \<and>
   (2 \<le> cnt \<and> tiers ''2+'' = Some v \<longrightarrow> findTieredPenalty cnt tiers = v) \<and>
   (cnt \<noteq> 0 \<and> \<not> (cnt = 1 \<and> tiers ''1'' \<noteq> None) \<and> \<not> (2 \<le> cnt \<and> tiers ''2+'' \<noteq> None)
      \<longrightarrow> findTieredPenalty cnt tiers = 0)"
  by (auto simp: findTieredPenalty_def)

theorem findTieredPenalty_cases_witness:
  "findTieredPenalty 1 [''1'' \<mapsto> 5, ''2+'' \<mapsto> 10] = 5 \<and>
   findTieredPenalty 2 [''1'' \<mapsto> 5, ''2+'' \<mapsto> 10] = 10 \<and>
   findTieredPenalty 7 [''1'' \<mapsto> 5, ''2+'' \<mapsto> 10] = 10 \<and>
   findTieredPenalty 0 [''1'' \<mapsto> 5, ''2+'' \<mapsto> 10] = 0 \<and>
   findTieredPenalty 1 [''2+'' \<mapsto> 10] = 0"
proof -
  let ?tiers = "[''1'' \<mapsto> 5, ''2+'' \<mapsto> (10::rat)]"
  have one: "?tiers ''1'' = Some 5" by simp
  have more2: "(2::rat) \<le> 2 \<and> ?tiers ''2+'' = Some 10" by simp
  have more7: "(2::rat) \<le> 7 \<and> ?tiers ''2+'' = Some 10" by simp
  have other: "(1::rat) \<noteq> 0 \<and> \<not> ((1::rat) = 1 \<and> [''2+'' \<mapsto> (10::rat)] ''1'' \<noteq> None) \<and>
      \<not> ((2::rat) \<le> 1 \<and> [''2+'' \<mapsto> (10::rat)] ''2+'' \<noteq> None)" by simp
  from findTieredPenalty_cases[of ?tiers 5] one
  have a: "findTieredPenalty 1 ?tiers = 5" by blast
  from findTieredPenalty_cases[of ?tiers 10 2] more2
  have b: "findTieredPenalty 2 ?tiers = 10" by blast
  from findTieredPenalty_cases[of ?tiers 10 7] more7
  have c: "findTieredPenalty 7 ?tiers = 10" by blast
  from findTieredPenalty_cases[of ?tiers]
  have d: "findTieredPenalty 0 ?tiers = 0" by blast
  from findTieredPenalty_cases[of "[''2+'' \<mapsto> 10]" _ 1] other
  have e: "findTieredPenalty 1 [''2+'' \<mapsto> 10] = 0" by blast
  from a b c d e show ?thesis by blast
qed

text \<open>
  Claim C10.  A count other than 0 that no bucket holds and that is not above the \<open>max\<close>
  of the last bucket (a count below the first bucket, in a gap between two buckets, or
  negative) gets the deduction 0 from \<^verbatim>\<open>findDeductionForCount\<close>.
\<close>

theorem findDeductionForCount_no_match:
  "cnt \<noteq> 0 \<Longrightarrow>
   \<forall>b \<in> set buckets. \<not> (min_bucket b \<le> cnt \<and> cnt \<le> max_bucket b) \<Longrightarrow>
   buckets = [] \<or> cnt \<le> max_bucket (last buckets) \<Longrightarrow>
   findDeductionForCount cnt buckets = 0"
proof -
  assume nz: "cnt \<noteq> 0"
    and nomatch: "\<forall>b \<in> set buckets. \<not> (min_bucket b \<le> cnt \<and> cnt \<le> max_bucket b)"
    and below: "buckets = [] \<or> cnt \<le> max_bucket (last buckets)"
  from nomatch have "scan_buckets cnt buckets = None"
    by (simp add: scan_buckets_None)
  with nz below show ?thesis
    by (auto simp: findDeductionForCount_def last_conv_nth)
qed

theorem findDeductionForCount_no_match_witness:
  "findDeductionForCount (5 / 2) default_buckets = 0 \<and>
   findDeductionForCount (1 / 2) default_buckets = 0 \<and>
   findDeductionForCount (- 3) default_buckets = 0"
proof -
  have gap: "(5 / 2 :: rat) \<noteq> 0"
    "\<forall>b \<in> set default_buckets. \<not> (min_bucket b \<le> 5 / 2 \<and> 5 / 2 \<le> max_bucket b)"
    "default_buckets = [] \<or> 5 / 2 \<le> max_bucket (last default_buckets)"
    by (simp_all add: default_buckets_def)
  have low: "(1 / 2 :: rat) \<noteq> 0"
    "\<forall>b \<in> set default_buckets. \<not> (min_bucket b \<le> 1 / 2 \<and> 1 / 2 \<le> max_bucket b)"
    "default_buckets = [] \<or> 1 / 2 \<le> max_bucket (last default_buckets)"
    by (simp_all add: default_buckets_def)
  have neg: "(- 3 :: rat) \<noteq> 0"
    "\<forall>b \<in> set default_buckets. \<not> (min_bucket b \<le> - 3 \<and> - 3 \<le> max_bucket b)"
    "default_buckets = [] \<or> - 3 \<le> max_bucket (last default_buckets)"
    by (simp_all add: default_buckets_def)
  from findDeductionForCount_no_match[OF gap] findDeductionForCount_no_match[OF low]
    findDeductionForCount_no_match[OF neg]
  show ?thesis by blast
qed

text \<open>
  Claim C9.  \<^verbatim>\<open>calculateAdminScore\<close> does not read the optional field
  \<^verbatim>\<open>individual_interaction\<close>: two admin payloads with the same five counts get the
  same score and the same deductions list under any rubric.
\<close>

theorem calculateAdminScore_ignores_individual_interaction:
  "isp_goal_errors p = isp_goal_errors q \<Longrightarrow>
   isp_behavior_errors p = isp_behavior_errors q \<Longrightarrow>
   mar_errors p = mar_errors q \<Longrightarrow>
   attendance_tardies_callouts p = attendance_tardies_callouts q \<Longrightarrow>
   attendance_ncns p = attendance_ncns q \<Longrightarrow>
   calculateAdminScore p rb = calculateAdminScore q rb"
  by (simp add: calculateAdminScore_def metricMap_def)

theorem calculateAdminScore_ignores_individual_interaction_witness:
  "calculateAdminScore (example_admin None) DEFAULT_RUBRIC_V1 =
     calculateAdminScore (example_admin (Some ''Unsatisfactory'')) DEFAULT_RUBRIC_V1 \<and>
   example_admin None \<noteq> example_admin (Some ''Unsatisfactory'') \<and>
   score (calculateAdminScore (example_admin None) DEFAULT_RUBRIC_V1) = 75"
proof -
  have same: "isp_goal_errors (example_admin None) = isp_goal_errors (example_admin (Some ''Unsatisfactory''))"
    "isp_behavior_errors (example_admin None) = isp_behavior_errors (example_admin (Some ''Unsatisfactory''))"
    "mar_errors (example_admin None) = mar_errors (example_admin (Some ''Unsatisfactory''))"
    "attendance_tardies_callouts (example_admin None) =
       attendance_tardies_callouts (example_admin (Some ''Unsatisfactory''))"
    "attendance_ncns (example_admin None) = attendance_ncns (example_admin (Some ''Unsatisfactory''))"
    by (simp_all add: example_admin_def)
  have differ: "example_admin None \<noteq> example_admin (Some ''Unsatisfactory'')"
    by (simp add: example_admin_def)
  have val: "score (calculateAdminScore (example_admin None) DEFAULT_RUBRIC_V1) = 75"
    by (simp add: calculateAdminScore_def metricMap_def example_admin_def DEFAULT_RUBRIC_V1_def
        default_buckets_def findDeductionForCount_def)
  from calculateAdminScore_ignores_individual_interaction[OF same, of DEFAULT_RUBRIC_V1] differ val
  show ?thesis by blast
qed

section \<open>Properties of the category scorers\<close>

lemma supervisor_loop_eq:
  "supervisor_loop rb xs (ds, t) =
     (ds @ map (supervisor_entry rb) (filter (\<lambda>mr. rating_deduction rb (snd mr) > 0) xs),
      t + sum_list (map (\<lambda>mr. rating_deduction rb (snd mr)) (filter (\<lambda>mr. rating_deduction rb (snd mr) > 0) xs)))"
  by (induction xs arbitrary: ds t) (auto simp: Let_def supervisor_entry_def)

lemma admin_loop_eq:
  "admin_loop rb xs (ds, t) =
     (ds @ map (admin_entry rb) (filter (\<lambda>mc. admin_deduction rb mc > 0) xs),
      t + sum_list (map (admin_deduction rb) (filter (\<lambda>mc. admin_deduction rb mc > 0) xs)))"
  by (induction xs arbitrary: ds t)
     (auto simp: Let_def admin_entry_def admin_deduction_def split: option.splits)

lemma sum_list_filter_pos_nonneg:
  "0 \<le> sum_list (map f (filter (\<lambda>x. f x > 0) xs))" for f :: "'a \<Rightarrow> rat"
  by (induction xs) auto

lemma recruiter_rules_eq:
  "retraining_rule payload rb (eda_rule payload rb (overdue_rule payload rb ([], 0))) =
     (map recruiter_entry (filter (\<lambda>rl. rule_count rl > 0) (recruiter_rule_table payload rb)),
      sum_list (map rule_deduction (filter (\<lambda>rl. rule_count rl > 0) (recruiter_rule_table payload rb))))"
  by (simp add: recruiter_rule_table_def recruiter_entry_def Let_def)

lemma findTieredPenalty_nonneg:
  "\<forall>v \<in> ran tiers. 0 \<le> v \<Longrightarrow> 0 \<le> findTieredPenalty cnt tiers"
  by (auto simp: findTieredPenalty_def ran_def)

text \<open>
  Claim C1, as stated, fails: the recruiter scorer adds the deduction of a rule whenever
  the rule's count is positive, whatever the sign of the deduction, so a rubric with a
  negative penalty gives a score above 100.  With the default rubric changed to a penalty
  of -15 per overdue training, one overdue training scores 115.
\<close>

theorem recruiter_score_above_100:
  "\<not> (0 \<le> score (calculateRecruiterScore
               \<lparr>overdue_trainings = 1, retrainings = 0, edas_past_6_months = 0\<rparr>
               rubric_negative_penalty)
      \<and> score (calculateRecruiterScore
               \<lparr>overdue_trainings = 1, retrainings = 0, edas_past_6_months = 0\<rparr>
               rubric_negative_penalty) \<le> 100)"
  by (simp add: calculateRecruiterScore_def rubric_negative_penalty_def DEFAULT_RUBRIC_V1_def
      findTieredPenalty_def)

text \<open>
  Claim C1, amended.  For every rubric and every payload the admin score and the supervisor
  score are in \<open>[0, 100]\<close>, and the recruiter score is at least 0.  The recruiter score is
  at most 100 for every payload when the rubric's recruiter penalties
  (\<^verbatim>\<open>overdue_training_penalty_per\<close> and the values of \<^verbatim>\<open>eda_penalty\<close> and
  \<^verbatim>\<open>retraining_penalty\<close>) are not negative.
\<close>

theorem category_scores_in_range:
  "0 \<le> score (calculateAdminScore a rb) \<and> score (calculateAdminScore a rb) \<le> 100 \<and>
   0 \<le> score (calculateSupervisorScore s rb) \<and> score (calculateSupervisorScore s rb) \<le> 100 \<and>
   0 \<le> score (calculateRecruiterScore r rb) \<and>
   (0 \<le> overdue_training_penalty_per (recruiter_rules rb) \<and>
    (\<forall>v \<in> ran (eda_penalty (recruiter_rules rb)). 0 \<le> v) \<and>
    (\<forall>v \<in> ran (retraining_penalty (recruiter_rules rb)). 0 \<le> v)
    \<longrightarrow> score (calculateRecruiterScore r rb) \<le> 100)"
proof (intro conjI impI)
  show "0 \<le> score (calculateAdminScore a rb)"
    by (simp add: calculateAdminScore_def admin_loop_eq)
  show "score (calculateAdminScore a rb) \<le> 100"
    by (simp add: calculateAdminScore_def admin_loop_eq sum_list_filter_pos_nonneg)
  show "0 \<le> score (calculateSupervisorScore s rb)"
    by (simp add: calculateSupervisorScore_def supervisor_loop_eq)
  show "score (calculateSupervisorScore s rb) \<le> 100"
    by (simp add: calculateSupervisorScore_def supervisor_loop_eq sum_list_filter_pos_nonneg)
  show "0 \<le> score (calculateRecruiterScore r rb)"
    unfolding calculateRecruiterScore_def recruiter_rules_eq by simp
next
  assume nonneg: "0 \<le> overdue_training_penalty_per (recruiter_rules rb) \<and>
    (\<forall>v \<in> ran (eda_penalty (recruiter_rules rb)). 0 \<le> v) \<and>
    (\<forall>v \<in> ran (retraining_penalty (recruiter_rules rb)). 0 \<le> v)"
  have "\<forall>rl \<in> set (filter (\<lambda>rl. rule_count rl > 0) (recruiter_rule_table r rb)). 0 \<le> rule_deduction rl"
    using nonneg by (auto simp: recruiter_rule_table_def findTieredPenalty_nonneg)
  then have "0 \<le> sum_list (map rule_deduction (filter (\<lambda>rl. rule_count rl > 0) (recruiter_rule_table r rb)))"
    by (intro sum_list_nonneg) auto
  then show "score (calculateRecruiterScore r rb) \<le> 100"
    unfolding calculateRecruiterScore_def recruiter_rules_eq by simp
qed

theorem category_scores_in_range_witness:
  "0 \<le> overdue_training_penalty_per (recruiter_rules DEFAULT_RUBRIC_V1) \<and>
   ran (eda_penalty (recruiter_rules DEFAULT_RUBRIC_V1)) = {80, 40} \<and>
   ran (retraining_penalty (recruiter_rules DEFAULT_RUBRIC_V1)) = {10, 5} \<and>
   score (calculateRecruiterScore
            \<lparr>overdue_trainings = 2, retrainings = 0, edas_past_6_months = 1\<rparr>
            DEFAULT_RUBRIC_V1) = 30 \<and>
   score (calculateRecruiterScore
            \<lparr>overdue_trainings = 2, retrainings = 0, edas_past_6_months = 1\<rparr>
            DEFAULT_RUBRIC_V1) \<le> 100"
proof -
  have per: "0 \<le> overdue_training_penalty_per (recruiter_rules DEFAULT_RUBRIC_V1)"
    by (simp add: DEFAULT_RUBRIC_V1_def)
  have eda: "ran (eda_penalty (recruiter_rules DEFAULT_RUBRIC_V1)) = {80, 40}"
    by (simp add: DEFAULT_RUBRIC_V1_def)
  have retr: "ran (retraining_penalty (recruiter_rules DEFAULT_RUBRIC_V1)) = {10, 5}"
    by (simp add: DEFAULT_RUBRIC_V1_def)
  have h: "0 \<le> overdue_training_penalty_per (recruiter_rules DEFAULT_RUBRIC_V1) \<and>
      (\<forall>v \<in> ran (eda_penalty (recruiter_rules DEFAULT_RUBRIC_V1)). 0 \<le> v) \<and>
      (\<forall>v \<in> ran (retraining_penalty (recruiter_rules DEFAULT_RUBRIC_V1)). 0 \<le> v)"
    using per by (simp add: eda retr)
  have v: "score (calculateRecruiterScore
            \<lparr>overdue_trainings = 2, retrainings = 0, edas_past_6_months = 1\<rparr>
            DEFAULT_RUBRIC_V1) = 30"
    by (simp add: calculateRecruiterScore_def DEFAULT_RUBRIC_V1_def findTieredPenalty_def)
  from category_scores_in_range[where rb = DEFAULT_RUBRIC_V1
      and r = "\<lparr>overdue_trainings = 2, retrainings = 0, edas_past_6_months = 1\<rparr>"] h
  have "score (calculateRecruiterScore
            \<lparr>overdue_trainings = 2, retrainings = 0, edas_past_6_months = 1\<rparr>
            DEFAULT_RUBRIC_V1) \<le> 100" by blast
  with per eda retr v show ?thesis by blast
qed

text \<open>
  Claim C3, as stated, fails in two ways.  The recruiter scorer records an entry for every
  rule whose count is positive, also when the rule's deduction is 0: with no \<open>"1"\<close> tier
  in \<^verbatim>\<open>eda_penalty\<close>, one EDA gives an entry of 0 points.  The supervisor scorer (and
  the admin scorer) records an entry only for a deduction above 0: a rating mapped to -5
  has a non-zero deduction and no entry.
\<close>

theorem deductions_list_counterexample:
  "deductions (calculateRecruiterScore
      \<lparr>overdue_trainings = 0, retrainings = 0, edas_past_6_months = 1\<rparr> rubric_no_single_eda)
     = [\<lparr>metric = ''edas_past_6_months'', value_of = NumberValue 1, deduction_points = 0,
         rule_id = ''recruiter_eda_penalty''\<rparr>]
   \<and> rating_deduction rubric_bonus_rating ''Outstanding'' = - 5
   \<and> deductions (calculateSupervisorScore (all_rated ''Outstanding'') rubric_bonus_rating) = []"
  by (simp add: calculateRecruiterScore_def rubric_no_single_eda_def DEFAULT_RUBRIC_V1_def
      findTieredPenalty_def calculateSupervisorScore_def rubric_bonus_rating_def all_rated_def
      supervisor_ratings_def rating_deduction_def)

text \<open>
  Claim C3, amended.  The deductions list of the supervisor scorer and of the admin scorer
  holds, in the order of the metrics, exactly one entry for each metric whose computed
  deduction is greater than 0, carrying that deduction, and no entry for any other metric.
  The deductions list of the recruiter scorer holds, in the order of the rules, exactly
  one entry for each rule whose count is greater than 0, carrying the deduction the rule
  computes, and no entry for a rule whose count is not greater than 0.
\<close>

theorem deductions_list_entries:
  "deductions (calculateSupervisorScore s rb) =
     map (supervisor_entry rb)
       (filter (\<lambda>mr. rating_deduction rb (snd mr) > 0) (supervisor_ratings s)) \<and>
   deductions (calculateAdminScore a rb) =
     map (admin_entry rb) (filter (\<lambda>mc. admin_deduction rb mc > 0) (metricMap a)) \<and>
   deductions (calculateRecruiterScore r rb) =
     map recruiter_entry (filter (\<lambda>rl. rule_count rl > 0) (recruiter_rule_table r rb))"
  unfolding calculateSupervisorScore_def supervisor_loop_eq calculateAdminScore_def
    admin_loop_eq calculateRecruiterScore_def recruiter_rules_eq
  by simp

theorem deductions_list_entries_witness:
  "map deduction_points
     (deductions (calculateSupervisorScore (all_rated ''Meets Expectations'') DEFAULT_RUBRIC_V1))
     = [8, 8, 8, 8, 8] \<and>
   map metric (deductions (calculateAdminScore (example_admin None) DEFAULT_RUBRIC_V1))
     = [''isp_goal_errors'', ''mar_errors''] \<and>
   map metric
     (deductions (calculateRecruiterScore
        \<lparr>overdue_trainings = 2, retrainings = 0, edas_past_6_months = 1\<rparr> DEFAULT_RUBRIC_V1))
     = [''overdue_trainings'', ''edas_past_6_months'']"
  using deductions_list_entries[where s = "all_rated ''Meets Expectations''"
      and rb = DEFAULT_RUBRIC_V1 and a = "example_admin None"
      and r = "\<lparr>overdue_trainings = 2, retrainings = 0, edas_past_6_months = 1\<rparr>"]
  by (simp add: all_rated_def supervisor_ratings_def supervisor_entry_def rating_deduction_def
      example_admin_def metricMap_def admin_entry_def admin_deduction_def
      findDeductionForCount_def default_buckets_def recruiter_rule_table_def
      recruiter_entry_def DEFAULT_RUBRIC_V1_def)

text \<open>
  Claim C7.  A rating label that \<^verbatim>\<open>supervisor_rating_map\<close> lacks and a metric key
  that \<^verbatim>\<open>admin_rules.metrics\<close> lacks are passed over: the loop goes on with its
  variables unchanged, so nothing is deducted and no entry is recorded for them, and the
  scorer returns what it returns when it visits the remaining metrics only.  The scorers
  have no failing branch: they return a score and a list for every payload and rubric.
\<close>

theorem unknown_keys_skipped:
  "(supervisor_rating_map rb rating = None \<longrightarrow>
      supervisor_loop rb ((m, rating) # ratings) st = supervisor_loop rb ratings st) \<and>
   (metrics (admin_rules rb) m = None \<longrightarrow>
      admin_loop rb ((m, cnt) # counts) st = admin_loop rb counts st) \<and>
   calculateSupervisorScore s rb =
     score_result (supervisor_loop rb
       (filter (\<lambda>mr. supervisor_rating_map rb (snd mr) \<noteq> None) (supervisor_ratings s)) ([], 0)) \<and>
   calculateAdminScore a rb =
     score_result (admin_loop rb
       (filter (\<lambda>mc. metrics (admin_rules rb) (fst mc) \<noteq> None) (metricMap a)) ([], 0))"
proof -
  have sup: "filter (\<lambda>mr. rating_deduction rb (snd mr) > 0)
               (filter (\<lambda>mr. supervisor_rating_map rb (snd mr) \<noteq> None) xs)
             = filter (\<lambda>mr. rating_deduction rb (snd mr) > 0) xs" for xs
    by (induction xs) (auto simp: rating_deduction_def)
  have adm: "filter (\<lambda>mc. admin_deduction rb mc > 0)
               (filter (\<lambda>mc. metrics (admin_rules rb) (fst mc) \<noteq> None) xs)
             = filter (\<lambda>mc. admin_deduction rb mc > 0) xs" for xs
    by (induction xs) (auto simp: admin_deduction_def)
  have step_sup: "supervisor_rating_map rb rating = None \<longrightarrow>
      supervisor_loop rb ((m, rating) # ratings) st = supervisor_loop rb ratings st"
    by (cases st) (simp add: rating_deduction_def)
  have step_adm: "metrics (admin_rules rb) m = None \<longrightarrow>
      admin_loop rb ((m, cnt) # counts) st = admin_loop rb counts st"
    by (cases st) simp
  have whole_sup: "calculateSupervisorScore s rb =
     score_result (supervisor_loop rb
       (filter (\<lambda>mr. supervisor_rating_map rb (snd mr) \<noteq> None) (supervisor_ratings s)) ([], 0))"
    by (simp only: calculateSupervisorScore_def supervisor_loop_eq sup)
  have whole_adm: "calculateAdminScore a rb =
     score_result (admin_loop rb
       (filter (\<lambda>mc. metrics (admin_rules rb) (fst mc) \<noteq> None) (metricMap a)) ([], 0))"
    by (simp only: calculateAdminScore_def admin_loop_eq adm)
  from step_sup step_adm whole_sup whole_adm show ?thesis by blast
qed

theorem unknown_keys_skipped_witness:
  "supervisor_rating_map DEFAULT_RUBRIC_V1 ''Superb'' = None \<and>
   score (calculateSupervisorScore
            ((all_rated ''Meets Expectations'')\<lparr>attitude := ''Superb''\<rparr>) DEFAULT_RUBRIC_V1) = 68 \<and>
   map metric (deductions (calculateSupervisorScore
            ((all_rated ''Meets Expectations'')\<lparr>attitude := ''Superb''\<rparr>) DEFAULT_RUBRIC_V1))
     = [''reliability'', ''proactivity'', ''flexibility'', ''individual_interaction''] \<and>
   metrics (admin_rules rubric_without_mar) ''mar_errors'' = None \<and>
   score (calculateAdminScore (example_admin None) rubric_without_mar) = 95 \<and>
   map metric (deductions (calculateAdminScore (example_admin None) rubric_without_mar))
     = [''isp_goal_errors'']"
proof -
  let ?s = "(all_rated ''Meets Expectations'')\<lparr>attitude := ''Superb''\<rparr>"
  have absent_label: "supervisor_rating_map DEFAULT_RUBRIC_V1 ''Superb'' = None"
    by (simp add: DEFAULT_RUBRIC_V1_def)
  have absent_key: "metrics (admin_rules rubric_without_mar) ''mar_errors'' = None"
    by (simp add: rubric_without_mar_def DEFAULT_RUBRIC_V1_def)
  note inst = unknown_keys_skipped[where rb = DEFAULT_RUBRIC_V1 and rating = "''Superb''"
      and m = "''attitude''" and ratings = "tl (supervisor_ratings ?s)" and st = "([], 0)"
      and s = ?s]
  from inst absent_label
  have "calculateSupervisorScore ?s DEFAULT_RUBRIC_V1 =
      score_result (supervisor_loop DEFAULT_RUBRIC_V1 (tl (supervisor_ratings ?s)) ([], 0))"
    by (simp add: calculateSupervisorScore_def supervisor_ratings_def all_rated_def)
  then have sup: "score (calculateSupervisorScore ?s DEFAULT_RUBRIC_V1) = 68 \<and>
      map metric (deductions (calculateSupervisorScore ?s DEFAULT_RUBRIC_V1))
        = [''reliability'', ''proactivity'', ''flexibility'', ''individual_interaction'']"
    by (simp add: supervisor_ratings_def all_rated_def rating_deduction_def DEFAULT_RUBRIC_V1_def)
  have adm: "score (calculateAdminScore (example_admin None) rubric_without_mar) = 95 \<and>
      map metric (deductions (calculateAdminScore (example_admin None) rubric_without_mar))
        = [''isp_goal_errors'']"
    by (simp add: calculateAdminScore_def metricMap_def example_admin_def rubric_without_mar_def
        DEFAULT_RUBRIC_V1_def findDeductionForCount_def default_buckets_def)
  from absent_label absent_key sup adm show ?thesis by blast
qed

section \<open>Properties of the rubric selection\<close>

lemma sort_key_last_greatest:
  fixes f :: "'a \<Rightarrow> 'b::linorder"
  assumes "xs \<noteq> []"
  shows "last (sort_key f xs) \<in> set xs \<and> (\<forall>x \<in> set xs. f x \<le> f (last (sort_key f xs)))"
proof -
  let ?ys = "sort_key f xs"
  have ne: "?ys \<noteq> []" using assms by (metis set_sort set_empty)
  have mem: "last ?ys \<in> set xs" using ne by (metis last_in_set set_sort)
  have srt: "sorted (map f ?ys)" by (rule sorted_sort_key)
  have "\<forall>x \<in> set xs. f x \<le> f (last ?ys)"
  proof
    fix x assume "x \<in> set xs"
    then have "x \<in> set ?ys" by simp
    then obtain i where i: "i < length ?ys" "?ys ! i = x" by (metis in_set_conv_nth)
    have "map f ?ys ! i \<le> map f ?ys ! (length ?ys - 1)"
      using srt i(1) by (intro sorted_nth_mono) auto
    with i ne show "f x \<le> f (last ?ys)" by (simp add: last_conv_nth)
  qed
  with mem show ?thesis by blast
qed

lemma select_rubric_versions_empty:
  "\<not> (\<exists>r \<in> set tbl. tbl_effective_month r \<le> month) \<Longrightarrow> select_rubric_versions tbl month = []"
  by (simp add: select_rubric_versions_def filter_empty_conv)

lemma select_rubric_versions_latest:
  assumes "\<exists>r \<in> set tbl. tbl_effective_month r \<le> month"
  shows "\<exists>r \<in> set tbl. tbl_effective_month r \<le> month \<and>
           (\<forall>r' \<in> set tbl. tbl_effective_month r' \<le> month \<longrightarrow>
              tbl_effective_month r' \<le> tbl_effective_month r) \<and>
           select_rubric_versions tbl month =
             [\<lparr>rubric_version = tbl_rubric_version r, rubric_json = tbl_rubric_json r\<rparr>]"
proof -
  let ?app = "filter (\<lambda>r. tbl_effective_month r \<le> month) tbl"
  let ?srt = "sort_key tbl_effective_month ?app"
  from assms have ne: "?app \<noteq> []" by (simp add: filter_empty_conv)
  then have ne': "rev ?srt \<noteq> []" by (metis rev_is_Nil_conv set_sort set_empty)
  from sort_key_last_greatest[OF ne, of tbl_effective_month]
  have mem: "last ?srt \<in> set ?app"
    and gr: "\<forall>x \<in> set ?app. tbl_effective_month x \<le> tbl_effective_month (last ?srt)"
    by blast+
  have "take 1 (rev ?srt) = [last ?srt]"
    using ne' by (cases "rev ?srt") (simp_all add: hd_rev[symmetric])
  then have "select_rubric_versions tbl month =
      [\<lparr>rubric_version = tbl_rubric_version (last ?srt), rubric_json = tbl_rubric_json (last ?srt)\<rparr>]"
    by (simp add: select_rubric_versions_def)
  with mem gr show ?thesis by auto
qed

text \<open>
  Claim C6.  \<^verbatim>\<open>getRubricForMonth\<close> returns a stored version whose effective month is
  at most the month asked for and is the greatest such effective month in the store; when
  the store has no version with an effective month at most the month asked for, it returns
  the built-in default rubric under the label \<open>"default"\<close>.  With versions effective
  2025-01 and 2025-06, the month 2025-03 gets the first, 2025-07 the second and 2024-12
  the default.
\<close>

theorem getRubricForMonth_latest:
  "(\<not> (\<exists>r \<in> set tbl. tbl_effective_month r \<le> month) \<longrightarrow>
      getRubricForMonth tbl month = \<lparr>version = ''default'', rubric = DEFAULT_RUBRIC_V1\<rparr>) \<and>
   ((\<exists>r \<in> set tbl. tbl_effective_month r \<le> month) \<longrightarrow>
      (\<exists>r \<in> set tbl. tbl_effective_month r \<le> month \<and>
         (\<forall>r' \<in> set tbl. tbl_effective_month r' \<le> month \<longrightarrow>
            tbl_effective_month r' \<le> tbl_effective_month r) \<and>
         getRubricForMonth tbl month =
           \<lparr>version = tbl_rubric_version r, rubric = tbl_rubric_json r\<rparr>)) \<and>
   getRubricForMonth
     [\<lparr>tbl_rubric_version = va, tbl_effective_month = ''2025-01'', tbl_rubric_json = ra\<rparr>,
      \<lparr>tbl_rubric_version = vb, tbl_effective_month = ''2025-06'', tbl_rubric_json = rb\<rparr>]
     ''2025-03'' = \<lparr>version = va, rubric = ra\<rparr> \<and>
   getRubricForMonth
     [\<lparr>tbl_rubric_version = va, tbl_effective_month = ''2025-01'', tbl_rubric_json = ra\<rparr>,
      \<lparr>tbl_rubric_version = vb, tbl_effective_month = ''2025-06'', tbl_rubric_json = rb\<rparr>]
     ''2025-07'' = \<lparr>version = vb, rubric = rb\<rparr> \<and>
   getRubricForMonth
     [\<lparr>tbl_rubric_version = va, tbl_effective_month = ''2025-01'', tbl_rubric_json = ra\<rparr>,
      \<lparr>tbl_rubric_version = vb, tbl_effective_month = ''2025-06'', tbl_rubric_json = rb\<rparr>]
     ''2024-12'' = \<lparr>version = ''default'', rubric = DEFAULT_RUBRIC_V1\<rparr>"
proof (intro conjI impI)
  assume "\<not> (\<exists>r \<in> set tbl. tbl_effective_month r \<le> month)"
  then show "getRubricForMonth tbl month = \<lparr>version = ''default'', rubric = DEFAULT_RUBRIC_V1\<rparr>"
    by (simp add: getRubricForMonth_def select_rubric_versions_empty)
next
  assume "\<exists>r \<in> set tbl. tbl_effective_month r \<le> month"
  from select_rubric_versions_latest[OF this]
  obtain r where r: "r \<in> set tbl" "tbl_effective_month r \<le> month"
    "\<forall>r' \<in> set tbl. tbl_effective_month r' \<le> month \<longrightarrow>
       tbl_effective_month r' \<le> tbl_effective_month r"
    "select_rubric_versions tbl month =
       [\<lparr>rubric_version = tbl_rubric_version r, rubric_json = tbl_rubric_json r\<rparr>]"
    by blast
  from r(4) have "getRubricForMonth tbl month =
      \<lparr>version = tbl_rubric_version r, rubric = tbl_rubric_json r\<rparr>"
    by (simp add: getRubricForMonth_def)
  with r(1-3) show "\<exists>r \<in> set tbl. tbl_effective_month r \<le> month \<and>
         (\<forall>r' \<in> set tbl. tbl_effective_month r' \<le> month \<longrightarrow>
            tbl_effective_month r' \<le> tbl_effective_month r) \<and>
         getRubricForMonth tbl month =
           \<lparr>version = tbl_rubric_version r, rubric = tbl_rubric_json r\<rparr>"
    by blast
qed (simp_all add: getRubricForMonth_def select_rubric_versions_def)

theorem getRubricForMonth_latest_witness:
  "(\<exists>r \<in> set example_versions. tbl_effective_month r \<le> ''2025-07'') \<and>
   version (getRubricForMonth example_versions ''2025-07'') = ''2025.06'' \<and>
   \<not> (\<exists>r \<in> set example_versions. tbl_effective_month r \<le> ''2024-12'') \<and>
   version (getRubricForMonth example_versions ''2024-12'') = ''default''"
proof -
  have some: "\<exists>r \<in> set example_versions. tbl_effective_month r \<le> ''2025-07''"
    by (simp add: example_versions_def)
  have none: "\<not> (\<exists>r \<in> set example_versions. tbl_effective_month r \<le> ''2024-12'')"
    by (simp add: example_versions_def)
  from getRubricForMonth_latest[of example_versions "''2025-07''"] some
  obtain r where r: "r \<in> set example_versions"
    "\<forall>r' \<in> set example_versions. tbl_effective_month r' \<le> ''2025-07'' \<longrightarrow>
       tbl_effective_month r' \<le> tbl_effective_month r"
    "getRubricForMonth example_versions ''2025-07'' =
       \<lparr>version = tbl_rubric_version r, rubric = tbl_rubric_json r\<rparr>"
    by blast
  from r(1,2) have "tbl_rubric_version r = ''2025.06''"
    by (auto simp: example_versions_def)
  with r(3) have a: "version (getRubricForMonth example_versions ''2025-07'') = ''2025.06''"
    by simp
  from getRubricForMonth_latest[of example_versions "''2024-12''"] none
  have b: "version (getRubricForMonth example_versions ''2024-12'') = ''default''"
    by simp
  from some a none b show ?thesis by blast
qed

section \<open>Properties of the double-precision evaluation\<close>

lemma bit_length_0: "bit_length 0 = 0"
  by (simp add: bit_length.simps)

lemma bit_length_1: "bit_length (Suc 0) = Suc 0"
  by (simp add: bit_length.simps)

lemma bit_length_numeral: "bit_length (numeral k) = Suc (bit_length (numeral k div 2))"
  by (subst bit_length.simps) simp

lemma floor_rat_numeral: "\<lfloor>numeral a / numeral b :: rat\<rfloor> = numeral a div numeral b"
  using floor_divide_of_int_eq[of "numeral a" "numeral b", where ?'a = rat] by simp

lemma ceiling_rat_numeral: "\<lceil>numeral a / numeral b :: rat\<rceil> = - (- numeral a div numeral b)"
  using floor_divide_of_int_eq[of "- numeral a" "numeral b", where ?'a = rat]
  by (simp add: ceiling_def)

lemmas double_eval =
  double_of_def ilog2_def pow2_def round_half_even_def Let_def
  bit_length_0 bit_length_1 bit_length_numeral floor_rat_numeral ceiling_rat_numeral

text \<open>
  The exponent \<open>ilog2\<close> is the binary exponent of its argument.
\<close>

lemma bit_length_bounds:
  "0 < n \<Longrightarrow> 2 ^ (bit_length n - 1) \<le> n \<and> n < 2 ^ bit_length n"
proof (induction n rule: bit_length.induct)
  case (1 n)
  show ?case
  proof (cases "n div 2 = 0")
    case True
    with "1.prems" have "n = 1" by (auto simp: div_eq_0_iff)
    then show ?thesis by (simp add: bit_length.simps)
  next
    case False
    then have pos: "0 < n div 2" by simp
    from "1.prems" have n0: "n \<noteq> 0" by simp
    from "1.IH"[OF n0 pos]
    have ih: "2 ^ (bit_length (n div 2) - 1) \<le> n div 2" "n div 2 < 2 ^ bit_length (n div 2)"
      by simp_all
    have bl: "bit_length n = Suc (bit_length (n div 2))"
      using n0 by (subst bit_length.simps) simp
    have blpos: "0 < bit_length (n div 2)"
      using pos by (subst bit_length.simps) simp
    from ih(1) have "2 * 2 ^ (bit_length (n div 2) - 1) \<le> n" by linarith
    moreover have "2 * 2 ^ (bit_length (n div 2) - 1) = (2::nat) ^ bit_length (n div 2)"
      using blpos by (cases "bit_length (n div 2)") simp_all
    ultimately have lower: "2 ^ bit_length (n div 2) \<le> n" by simp
    from ih(2) have upper: "n < 2 * 2 ^ bit_length (n div 2)" by linarith
    from lower upper show ?thesis by (simp add: bl)
  qed
qed

lemma pow2_pos: "0 < pow2 k"
  by (simp add: pow2_def)

lemma ilog2_bounds:
  assumes "0 < x"
  shows "pow2 (ilog2 x) \<le> x \<and> x < pow2 (ilog2 x + 1)"
proof (cases "1 \<le> x")
  case True
  define n where "n = nat \<lfloor>x\<rfloor>"
  from True have n: "0 < n" "of_nat n \<le> x" "x < of_nat n + 1"
    unfolding n_def by (simp_all add: of_nat_nat) linarith+
  from bit_length_bounds[OF n(1)] have b: "2 ^ (bit_length n - 1) \<le> n" "n < 2 ^ bit_length n"
    by simp_all
  have blpos: "0 < bit_length n" using n(1) by (subst bit_length.simps) simp
  have e: "ilog2 x = int (bit_length n) - 1"
    using True by (simp add: ilog2_def n_def)
  have p1: "pow2 (ilog2 x) = 2 ^ (bit_length n - 1)"
    using blpos by (simp add: e pow2_def nat_diff_distrib')
  have p2: "pow2 (ilog2 x + 1) = 2 ^ bit_length n"
    by (simp add: e pow2_def)
  from b(1) have "(of_nat (2 ^ (bit_length n - 1)) :: rat) \<le> of_nat n"
    by (rule of_nat_mono)
  then have "(2::rat) ^ (bit_length n - 1) \<le> of_nat n"
    by simp
  from this n(2) have "2 ^ (bit_length n - 1) \<le> x" by (rule order_trans)
  then have lower: "pow2 (ilog2 x) \<le> x" by (simp only: p1)
  from b(2) have "n + 1 \<le> 2 ^ bit_length n" by simp
  then have "(of_nat (n + 1) :: rat) \<le> of_nat (2 ^ bit_length n)"
    by (rule of_nat_mono)
  then have "(of_nat n :: rat) + 1 \<le> 2 ^ bit_length n"
    by simp
  with n(3) have "x < 2 ^ bit_length n" by (rule less_le_trans)
  then have upper: "x < pow2 (ilog2 x + 1)" by (simp only: p2)
  from lower upper show ?thesis by blast
next
  case False
  define c where "c = \<lceil>1 / x\<rceil>"
  define m where "m = nat (c - 1)"
  from False assms have y: "1 < 1 / x" by (simp add: field_simps)
  then have c2: "2 \<le> c" unfolding c_def by linarith
  have cy: "1 / x \<le> of_int c" "of_int c - 1 < 1 / x"
    unfolding c_def by linarith+
  from c2 have m: "0 < m" "int m = c - 1" unfolding m_def by simp_all
  from bit_length_bounds[OF m(1)] have b: "2 ^ (bit_length m - 1) \<le> m" "m < 2 ^ bit_length m"
    by simp_all
  have blpos: "0 < bit_length m" using m(1) by (subst bit_length.simps) simp
  have e: "ilog2 x = - int (bit_length m)"
    using False by (simp add: ilog2_def m_def c_def)
  have p1: "pow2 (ilog2 x) = 1 / 2 ^ bit_length m"
    using blpos by (simp add: e pow2_def)
  have p2: "pow2 (ilog2 x + 1) = 1 / 2 ^ (bit_length m - 1)"
    using blpos by (cases "bit_length m") (simp_all add: e pow2_def nat_diff_distrib')
  from b(2) have "m + 1 \<le> 2 ^ bit_length m" by simp
  then have "int (m + 1) \<le> int (2 ^ bit_length m)"
    by (rule of_nat_mono)
  then have "c \<le> 2 ^ bit_length m" by (simp add: m(2))
  then have "(of_int c :: rat) \<le> of_int (2 ^ bit_length m)"
    by (simp only: of_int_le_iff)
  then have "(of_int c :: rat) \<le> 2 ^ bit_length m"
    by simp
  with cy(1) have "1 / x \<le> 2 ^ bit_length m" by linarith
  with assms have "1 / 2 ^ bit_length m \<le> x"
    by (simp add: field_simps)
  then have lower: "pow2 (ilog2 x) \<le> x" by (simp only: p1)
  from b(1) have "int (2 ^ (bit_length m - 1)) \<le> int m"
    by (rule of_nat_mono)
  then have "(2::int) ^ (bit_length m - 1) \<le> c - 1" by (simp add: m(2))
  then have "(of_int (2 ^ (bit_length m - 1)) :: rat) \<le> of_int (c - 1)"
    by (simp only: of_int_le_iff)
  then have "(2::rat) ^ (bit_length m - 1) \<le> of_int c - 1"
    by simp
  with cy(2) have "2 ^ (bit_length m - 1) < 1 / x" by linarith
  with assms have "x < 1 / 2 ^ (bit_length m - 1)"
    by (simp add: field_simps)
  then have upper: "x < pow2 (ilog2 x + 1)" by (simp only: p2)
  from lower upper show ?thesis by blast
qed

lemma round_half_even_near: "\<bar>of_int (round_half_even x) - x\<bar> \<le> 1 / 2"
proof -
  have "of_int \<lfloor>x\<rfloor> \<le> x" "x < of_int \<lfloor>x\<rfloor> + 1" by linarith+
  then show ?thesis
    by (auto simp: round_half_even_def Let_def abs_le_iff)
qed

text \<open>
  A finite result of \<open>double_of\<close> is a whole multiple of the unit in the last place of
  the argument and at most half a unit away from the argument.
\<close>

lemma double_of_near:
  assumes "double_of x = Finite y" and "x \<noteq> 0"
  shows "\<exists>k. y = of_int k * pow2 (max (ilog2 \<bar>x\<bar>) (- 1022) - 52) \<and>
             \<bar>y - x\<bar> \<le> pow2 (max (ilog2 \<bar>x\<bar>) (- 1022) - 52) / 2"
proof -
  define q where "q = max (ilog2 \<bar>x\<bar>) (- 1022) - 52"
  define k where "k = round_half_even (\<bar>x\<bar> / pow2 q)"
  have pos: "0 < pow2 q" by (rule pow2_pos)
  from round_half_even_near[of "\<bar>x\<bar> / pow2 q"]
  have "\<bar>of_int k - \<bar>x\<bar> / pow2 q\<bar> * pow2 q \<le> 1 / 2 * pow2 q"
    unfolding k_def using pos by (intro mult_right_mono) simp_all
  then have near: "\<bar>of_int k * pow2 q - \<bar>x\<bar>\<bar> \<le> pow2 q / 2"
    using pos by (simp add: abs_mult[symmetric] left_diff_distrib field_simps del: abs_mult)
  show ?thesis
  proof (cases "x > 0")
    case True
    with assms have "y = of_int k * pow2 q"
      by (simp add: double_of_def Let_def q_def k_def split: if_splits)
    with near True show ?thesis unfolding q_def by auto
  next
    case False
    with assms have y: "y = - (of_int k * pow2 q)"
      by (simp add: double_of_def Let_def q_def k_def split: if_splits)
    from False assms(2) have "\<bar>x\<bar> = - x" by simp
    then have "y - x = - (of_int k * pow2 q - \<bar>x\<bar>)" by (simp add: y)
    then have "\<bar>y - x\<bar> = \<bar>of_int k * pow2 q - \<bar>x\<bar>\<bar>" by (simp only: abs_minus)
    with near have "\<bar>y - x\<bar> \<le> pow2 q / 2" by simp
    moreover have "y = of_int (- k) * pow2 q" by (simp add: y)
    ultimately show ?thesis unfolding q_def by blast
  qed
qed

lemma Math_round_Finite: "Math_round (Finite x) = Finite (of_int (round x))"
proof -
  have le: "of_int \<lfloor>x\<rfloor> \<le> x" and lt: "x < of_int \<lfloor>x\<rfloor> + 1"
    by linarith+
  show ?thesis
  proof (cases "x - of_int \<lfloor>x\<rfloor> < 1 / 2")
    case True
    have "\<lfloor>x + 1 / 2\<rfloor> = \<lfloor>x\<rfloor>"
      by (rule floor_unique) (use True le in linarith)+
    with True show ?thesis by (simp add: round_def)
  next
    case False
    have "\<lfloor>x + 1 / 2\<rfloor> = \<lfloor>x\<rfloor> + 1"
      by (rule floor_unique) (use False lt in simp_all)
    with False show ?thesis by (simp add: round_def)
  qed
qed

lemma weighted_sum_example:
  "Math_round
     (number_plus
        (number_plus (number_times (double_of 90) (double_of (4 / 10)))
           (number_times (double_of 85) (double_of (4 / 10))))
        (number_times (double_of 70) (double_of (2 / 10)))) = Finite 84"
proof -
  have a: "number_times (double_of 90) (double_of (4 / 10)) = Finite 36"
    by (simp add: double_eval)
  have s: "number_times (double_of 85) (double_of (4 / 10)) = Finite 34"
    by (simp add: double_eval)
  have r: "number_times (double_of 70) (double_of (2 / 10)) = Finite 14"
    by (simp add: double_eval)
  have sum: "number_plus (number_plus (Finite 36) (Finite 34)) (Finite 14) = Finite 84"
    by (simp add: double_eval)
  have "Math_round (Finite 84) = Finite 84"
    by simp
  then show ?thesis by (simp only: a s r sum)
qed

lemma weighted_sum_exact:
  assumes "representable a" "representable (admin_weight (weights rb))"
    "representable (a * admin_weight (weights rb))"
    "representable s" "representable (supervisor_weight (weights rb))"
    "representable (s * supervisor_weight (weights rb))"
    "representable r" "representable (recruiter_weight (weights rb))"
    "representable (r * recruiter_weight (weights rb))"
    "representable (a * admin_weight (weights rb) + s * supervisor_weight (weights rb))"
    "representable (a * admin_weight (weights rb) + s * supervisor_weight (weights rb) +
       r * recruiter_weight (weights rb))"
  shows "weighted_sum rb a s r =
     Finite (a * admin_weight (weights rb) + s * supervisor_weight (weights rb) +
       r * recruiter_weight (weights rb))"
  using assms unfolding representable_def weighted_sum_def by simp

section \<open>Properties of the aggregation\<close>

lemma score_submissions_fold:
  "score_submissions rb rows st = fold (score_submission rb) rows st"
  by (induction rows arbitrary: st) simp_all

lemma score_submission_commute:
  "role x \<noteq> role y \<Longrightarrow>
   score_submission rb x (score_submission rb y st) =
   score_submission rb y (score_submission rb x st)"
  by (cases x; cases y) (simp_all add: Let_def)

lemma score_submissions_permute:
  assumes dist: "distinct (map role xs)" and perm: "mset xs = mset ys"
  shows "score_submissions rb xs st = score_submissions rb ys st"
proof -
  have "fold (score_submission rb) xs = fold (score_submission rb) ys"
  proof (rule fold_multiset_equiv)
    fix x y
    assume x: "x \<in> set xs" and y: "y \<in> set xs"
    show "score_submission rb x \<circ> score_submission rb y =
          score_submission rb y \<circ> score_submission rb x"
    proof (cases "x = y")
      case True
      then show ?thesis by simp
    next
      case False
      from dist have "inj_on role (set xs)" by (simp add: distinct_map)
      with x y False have "role x \<noteq> role y" by (auto dest: inj_onD)
      then show ?thesis by (auto simp: fun_eq_iff score_submission_commute)
    qed
  qed (rule perm)
  then show ?thesis by (simp add: score_submissions_fold)
qed

lemma computeScores_result:
  "fst (computeScoresForEmployee stringify now db month employeeId area) =
     computed_scores db month employeeId"
  by (simp add: computeScoresForEmployee_def Let_def)

lemma computed_scores_eq:
  "computed_scores db month employeeId =
     (let resolved = getRubricForMonth (rubric_versions db) month;
          st = score_submissions (rubric resolved)
                 (select_submissions (submissions_raw db) month employeeId)
                 \<lparr>adminScore = None, supervisorScore = None, recruiterScore = None,
                  finalScore = None,
                  deductions_all = \<lparr>admin = [], supervisor = [], recruiter = []\<rparr>,
                  rubricVersion = version resolved\<rparr>
      in st\<lparr>finalScore :=
              final_score (rubric resolved)
                (adminScore st) (supervisorScore st) (recruiterScore st)\<rparr>)"
  by (simp add: computed_scores_def Let_def)

lemma computed_scores_final:
  "finalScore (computed_scores db month employeeId) =
     final_score (rubric (getRubricForMonth (rubric_versions db) month))
       (adminScore (computed_scores db month employeeId))
       (supervisorScore (computed_scores db month employeeId))
       (recruiterScore (computed_scores db month employeeId))"
  by (simp add: computed_scores_eq Let_def)

lemma find_snoc:
  "find P xs = None \<Longrightarrow> find P (xs @ [y]) = (if P y then Some y else None)"
  by (induction xs) (auto split: if_splits)

lemma upsert_lookup:
  "map_option sc_deductions_json
     (lookup_scores_computed (upsert_scores_computed new tbl) (sc_month new) (sc_employee_id new))
   = Some (sc_deductions_json new)"
proof (cases "list_ex (same_key new) tbl")
  case True
  have "map_option sc_deductions_json
          (find (\<lambda>r. sc_month r = sc_month new \<and> sc_employee_id r = sc_employee_id new)
             (map (\<lambda>old. if same_key new old
                      then old\<lparr>sc_rubric_version := sc_rubric_version new,
                              sc_admin_score := sc_admin_score new,
                              sc_supervisor_score := sc_supervisor_score new,
                              sc_recruiter_score := sc_recruiter_score new,
                              sc_final_score := sc_final_score new,
                              sc_deductions_json := sc_deductions_json new,
                              sc_computed_at := sc_computed_at new\<rparr>
                      else old) tbl))
        = Some (sc_deductions_json new)"
    using True by (induction tbl) (auto simp: same_key_def)
  with True show ?thesis
    by (simp add: upsert_scores_computed_def lookup_scores_computed_def)
next
  case False
  then have "find (\<lambda>r. sc_month r = sc_month new \<and> sc_employee_id r = sc_employee_id new) tbl = None"
    by (auto simp: find_None_iff list_ex_iff same_key_def)
  with False show ?thesis
    by (simp add: upsert_scores_computed_def lookup_scores_computed_def find_snoc)
qed

lemma computeScores_stored_json:
  "map_option sc_deductions_json
     (lookup_scores_computed
        (scores_computed (snd (computeScoresForEmployee stringify now db month employeeId area)))
        month employeeId)
   = Some (stringify (deductions_all
        (fst (computeScoresForEmployee stringify now db month employeeId area))))"
  using upsert_lookup[of "\<lparr>sc_month = month, sc_employee_id = employeeId, sc_area = area,
      sc_rubric_version = rv, sc_admin_score = a, sc_supervisor_score = s,
      sc_recruiter_score = r, sc_final_score = f, sc_deductions_json = j,
      sc_computed_at = now\<rparr>" for rv a s r f j]
  by (simp add: computeScoresForEmployee_def Let_def)

lemma computeScores_store_untouched:
  "rubric_versions (snd (computeScoresForEmployee stringify now db month employeeId area)) =
     rubric_versions db \<and>
   submissions_raw (snd (computeScoresForEmployee stringify now db month employeeId area)) =
     submissions_raw db"
  by (simp add: computeScoresForEmployee_def Let_def)

lemma computeScores_result_cong:
  assumes rb: "getRubricForMonth (rubric_versions db) month =
               getRubricForMonth (rubric_versions db') month"
    and rows: "select_submissions (submissions_raw db) month employeeId =
                 select_submissions (submissions_raw db') month employeeId \<or>
               (distinct (map role (select_submissions (submissions_raw db) month employeeId)) \<and>
                mset (select_submissions (submissions_raw db) month employeeId) =
                  mset (select_submissions (submissions_raw db') month employeeId))"
  shows "fst (computeScoresForEmployee stringify now db month employeeId area) =
         fst (computeScoresForEmployee stringify' now' db' month employeeId area')"
proof -
  have "score_submissions rb0 (select_submissions (submissions_raw db) month employeeId) st =
        score_submissions rb0 (select_submissions (submissions_raw db') month employeeId) st"
    for rb0 st
    using rows by (auto intro: score_submissions_permute)
  then show ?thesis
    by (simp add: computeScores_result computed_scores_eq rb Let_def)
qed

text \<open>
  Claim C2, as stated, fails: the weighted sum is evaluated in double arithmetic, and its
  rounding errors can carry it across a half.  With the weights 0.35, 0.35 and 0.3 and
  the category scores 45, 85 and 30 the exact sum is 54.5, which rounds to 55; the
  program's sum is just below 54.5 and the final score is 54.
\<close>

theorem final_score_double_counterexample:
  "adminScore (computed_scores example_db_035 ''2025-11'' ''E3'') = Some 45 \<and>
   supervisorScore (computed_scores example_db_035 ''2025-11'' ''E3'') = Some 85 \<and>
   recruiterScore (computed_scores example_db_035 ''2025-11'' ''E3'') = Some 30 \<and>
   weights (rubric (getRubricForMonth (rubric_versions example_db_035) ''2025-11'')) =
     \<lparr>admin_weight = 35 / 100, supervisor_weight = 35 / 100, recruiter_weight = 30 / 100\<rparr> \<and>
   round (45 * (35 / 100) + 85 * (35 / 100) + 30 * (30 / 100) :: rat) = 55 \<and>
   finalScore (computed_scores example_db_035 ''2025-11'' ''E3'') = Some (Finite 54)"
proof -
  let ?res = "computed_scores example_db_035 ''2025-11'' ''E3''"
  have rb: "getRubricForMonth (rubric_versions example_db_035) ''2025-11'' =
      \<lparr>version = ''2025.11'', rubric = rubric_weights_035\<rparr>"
    by (simp add: example_db_035_def getRubricForMonth_def select_rubric_versions_def)
  have rows: "select_submissions (submissions_raw example_db_035) ''2025-11'' ''E3'' =
      [AdminSubmission
         \<lparr>isp_goal_errors = 6, isp_behavior_errors = 6, mar_errors = 3,
          attendance_tardies_callouts = 1, attendance_ncns = 0,
          individual_interaction_admin = None\<rparr>,
       SupervisorSubmission (all_rated ''Exceeds Expectations''),
       RecruiterSubmission \<lparr>overdue_trainings = 2, retrainings = 0, edas_past_6_months = 1\<rparr>]"
    by (simp add: example_db_035_def select_submissions_def)
  have adm: "score (calculateAdminScore
         \<lparr>isp_goal_errors = 6, isp_behavior_errors = 6, mar_errors = 3,
          attendance_tardies_callouts = 1, attendance_ncns = 0,
          individual_interaction_admin = None\<rparr> rubric_weights_035) = 45"
    by (simp add: calculateAdminScore_def metricMap_def rubric_weights_035_def
        DEFAULT_RUBRIC_V1_def findDeductionForCount_def default_buckets_def)
  have sup: "score (calculateSupervisorScore (all_rated ''Exceeds Expectations'')
         rubric_weights_035) = 85"
    by (simp add: calculateSupervisorScore_def supervisor_ratings_def all_rated_def
        rating_deduction_def rubric_weights_035_def DEFAULT_RUBRIC_V1_def)
  have rec: "score (calculateRecruiterScore
         \<lparr>overdue_trainings = 2, retrainings = 0, edas_past_6_months = 1\<rparr>
         rubric_weights_035) = 30"
    by (simp add: calculateRecruiterScore_def rubric_weights_035_def DEFAULT_RUBRIC_V1_def
        findTieredPenalty_def)
  have scores: "adminScore ?res = Some 45 \<and> supervisorScore ?res = Some 85 \<and>
      recruiterScore ?res = Some 30"
    by (simp add: computed_scores_eq rb rows adm sup rec Let_def)
  have w: "weights (rubric (getRubricForMonth (rubric_versions example_db_035) ''2025-11'')) =
     \<lparr>admin_weight = 35 / 100, supervisor_weight = 35 / 100, recruiter_weight = 30 / 100\<rparr>"
    by (simp add: rb rubric_weights_035_def)
  have exact: "round (45 * (35 / 100) + 85 * (35 / 100) + 30 * (30 / 100) :: rat) = 55"
    by (simp add: round_def)
  have sum: "Math_round (weighted_sum rubric_weights_035 45 85 30) = Finite 54"
    by (simp add: weighted_sum_def rubric_weights_035_def double_eval)
  have fin: "finalScore ?res = Some (Finite 54)"
    using scores sum by (simp add: computed_scores_final rb final_score_def)
  from scores w exact fin show ?thesis by blast
qed

text \<open>
  Claim C2, amended.  Among the scores that \<^verbatim>\<open>computeScoresForEmployee\<close> computes, the
  final score is null when one of the three category scores is null.  When the three are
  present it is \<^verbatim>\<open>Math.round\<close> of the sum
  \<open>admin * w_admin + supervisor * w_supervisor + recruiter * w_recruiter\<close> with the
  weights of the resolved rubric, the sum being evaluated from left to right in double
  arithmetic (every weight, product and partial sum is rounded to the nearest double), and
  \<^verbatim>\<open>Math.round\<close> taking a finite value to the nearest integer, a half rounded up.
  When the scores, the weights, the products and the partial sums are doubles as they
  are, the final score is the exact sum rounded to the nearest integer, a half rounded
  up.  With the scores 90, 85 and 70 and the weights 0.4, 0.4 and 0.2 it is 84.
\<close>

theorem final_score_all_or_nothing:
  assumes "res = computed_scores db month employeeId"
    and "rb = rubric (getRubricForMonth (rubric_versions db) month)"
  shows "((adminScore res = None \<or> supervisorScore res = None \<or> recruiterScore res = None)
            \<longrightarrow> finalScore res = None) \<and>
         (adminScore res = Some a \<and> supervisorScore res = Some s \<and> recruiterScore res = Some r
            \<longrightarrow> finalScore res = Some (Math_round (weighted_sum rb a s r))) \<and>
         (weighted_sum rb a s r = Finite x
            \<longrightarrow> Math_round (weighted_sum rb a s r) = Finite (of_int (round x))) \<and>
         (adminScore res = Some a \<and> supervisorScore res = Some s \<and> recruiterScore res = Some r \<and>
          representable a \<and> representable (admin_weight (weights rb)) \<and>
          representable (a * admin_weight (weights rb)) \<and>
          representable s \<and> representable (supervisor_weight (weights rb)) \<and>
          representable (s * supervisor_weight (weights rb)) \<and>
          representable r \<and> representable (recruiter_weight (weights rb)) \<and>
          representable (r * recruiter_weight (weights rb)) \<and>
          representable (a * admin_weight (weights rb) + s * supervisor_weight (weights rb)) \<and>
          representable (a * admin_weight (weights rb) + s * supervisor_weight (weights rb) +
            r * recruiter_weight (weights rb))
            \<longrightarrow> finalScore res =
                  Some (Finite (of_int (round (a * admin_weight (weights rb) +
                                               s * supervisor_weight (weights rb) +
                                               r * recruiter_weight (weights rb)))))) \<and>
         (adminScore res = Some 90 \<and> supervisorScore res = Some 85 \<and> recruiterScore res = Some 70 \<and>
          admin_weight (weights rb) = 4 / 10 \<and> supervisor_weight (weights rb) = 4 / 10 \<and>
          recruiter_weight (weights rb) = 2 / 10
            \<longrightarrow> finalScore res = Some (Finite 84))"
proof -
  have fin: "finalScore res =
      final_score rb (adminScore res) (supervisorScore res) (recruiterScore res)"
    unfolding assms by (rule computed_scores_final)
  have none: "(adminScore res = None \<or> supervisorScore res = None \<or> recruiterScore res = None)
      \<longrightarrow> finalScore res = None"
    by (auto simp: fin final_score_def)
  have some: "finalScore res = Some (Math_round (weighted_sum rb a' s' r'))"
    if "adminScore res = Some a' \<and> supervisorScore res = Some s' \<and> recruiterScore res = Some r'"
    for a' s' r'
    using that by (simp add: fin final_score_def)
  have half_up: "weighted_sum rb a s r = Finite x
      \<longrightarrow> Math_round (weighted_sum rb a s r) = Finite (of_int (round x))"
    by (auto simp only: Math_round_Finite)
  have exact: "finalScore res =
      Some (Finite (of_int (round (a * admin_weight (weights rb) +
                                   s * supervisor_weight (weights rb) +
                                   r * recruiter_weight (weights rb)))))"
    if "adminScore res = Some a \<and> supervisorScore res = Some s \<and> recruiterScore res = Some r"
      and "representable a" "representable (admin_weight (weights rb))"
      "representable (a * admin_weight (weights rb))"
      "representable s" "representable (supervisor_weight (weights rb))"
      "representable (s * supervisor_weight (weights rb))"
      "representable r" "representable (recruiter_weight (weights rb))"
      "representable (r * recruiter_weight (weights rb))"
      "representable (a * admin_weight (weights rb) + s * supervisor_weight (weights rb))"
      "representable (a * admin_weight (weights rb) + s * supervisor_weight (weights rb) +
         r * recruiter_weight (weights rb))"
    using some[OF that(1)] weighted_sum_exact[OF that(2-12)]
    by (simp only: Math_round_Finite)
  have eighty_four: "finalScore res = Some (Finite 84)"
    if "adminScore res = Some 90 \<and> supervisorScore res = Some 85 \<and> recruiterScore res = Some 70 \<and>
        admin_weight (weights rb) = 4 / 10 \<and> supervisor_weight (weights rb) = 4 / 10 \<and>
        recruiter_weight (weights rb) = 2 / 10"
  proof -
    from that have w: "admin_weight (weights rb) = 4 / 10"
      "supervisor_weight (weights rb) = 4 / 10" "recruiter_weight (weights rb) = 2 / 10"
      by blast+
    have "Math_round (weighted_sum rb 90 85 70) = Finite 84"
      unfolding weighted_sum_def w by (rule weighted_sum_example)
    with some[of 90 85 70] that show ?thesis by simp
  qed
  from none some[of a s r] half_up exact eighty_four show ?thesis by blast
qed

theorem final_score_all_or_nothing_witness:
  "adminScore (computed_scores example_db ''2025-03'' ''E1'') = Some 90 \<and>
   supervisorScore (computed_scores example_db ''2025-03'' ''E1'') = Some 85 \<and>
   recruiterScore (computed_scores example_db ''2025-03'' ''E1'') = Some 70 \<and>
   finalScore (computed_scores example_db ''2025-03'' ''E1'') = Some (Finite 84) \<and>
   adminScore (computed_scores example_db ''2025-03'' ''E2'') = None \<and>
   finalScore (computed_scores example_db ''2025-03'' ''E2'') = None \<and>
   representable (100 * (1 / 2) + 100 * (1 / 4) + 70 * (1 / 4)) \<and>
   finalScore (computed_scores example_db ''2025-10'' ''E1'') = Some (Finite 93)"
proof -
  let ?e1 = "computed_scores example_db ''2025-03'' ''E1''"
  let ?e2 = "computed_scores example_db ''2025-03'' ''E2''"
  let ?oct = "computed_scores example_db ''2025-10'' ''E1''"
  have rb03: "getRubricForMonth (rubric_versions example_db) ''2025-03'' =
      \<lparr>version = ''2025.01'', rubric = DEFAULT_RUBRIC_V1\<rparr>"
    by (simp add: example_db_def example_versions_def getRubricForMonth_def
        select_rubric_versions_def)
  have rb10: "getRubricForMonth (rubric_versions example_db) ''2025-10'' =
      \<lparr>version = ''2025.09'', rubric = rubric_half_weights\<rparr>"
    by (simp add: example_db_def example_versions_def getRubricForMonth_def
        select_rubric_versions_def)
  have rows_e1: "select_submissions (submissions_raw example_db) ''2025-03'' ''E1'' =
      [AdminSubmission
         \<lparr>isp_goal_errors = 2, isp_behavior_errors = 1, mar_errors = 0,
          attendance_tardies_callouts = 0, attendance_ncns = 0,
          individual_interaction_admin = None\<rparr>,
       SupervisorSubmission (all_rated ''Exceeds Expectations''),
       RecruiterSubmission \<lparr>overdue_trainings = 2, retrainings = 0, edas_past_6_months = 0\<rparr>]"
    by (simp add: example_db_def example_submissions_def select_submissions_def)
  have rows_e2: "select_submissions (submissions_raw example_db) ''2025-03'' ''E2'' =
      [SupervisorSubmission (all_rated ''Meets Expectations'')]"
    by (simp add: example_db_def example_submissions_def select_submissions_def)
  have rows_oct: "select_submissions (submissions_raw example_db) ''2025-10'' ''E1'' =
      [AdminSubmission
         \<lparr>isp_goal_errors = 0, isp_behavior_errors = 0, mar_errors = 0,
          attendance_tardies_callouts = 0, attendance_ncns = 0,
          individual_interaction_admin = None\<rparr>,
       SupervisorSubmission (all_rated ''Outstanding''),
       RecruiterSubmission \<lparr>overdue_trainings = 2, retrainings = 0, edas_past_6_months = 0\<rparr>]"
    by (simp add: example_db_def example_submissions_def select_submissions_def)
  have adm90: "score (calculateAdminScore
         \<lparr>isp_goal_errors = 2, isp_behavior_errors = 1, mar_errors = 0,
          attendance_tardies_callouts = 0, attendance_ncns = 0,
          individual_interaction_admin = None\<rparr> DEFAULT_RUBRIC_V1) = 90"
    by (simp add: calculateAdminScore_def metricMap_def DEFAULT_RUBRIC_V1_def
        findDeductionForCount_def default_buckets_def)
  have sup85: "score (calculateSupervisorScore (all_rated ''Exceeds Expectations'') DEFAULT_RUBRIC_V1) = 85"
    by (simp add: calculateSupervisorScore_def supervisor_ratings_def all_rated_def
        rating_deduction_def DEFAULT_RUBRIC_V1_def)
  have rec70: "score (calculateRecruiterScore
         \<lparr>overdue_trainings = 2, retrainings = 0, edas_past_6_months = 0\<rparr> DEFAULT_RUBRIC_V1) = 70"
    by (simp add: calculateRecruiterScore_def DEFAULT_RUBRIC_V1_def)
  have rec70': "score (calculateRecruiterScore
         \<lparr>overdue_trainings = 2, retrainings = 0, edas_past_6_months = 0\<rparr> rubric_half_weights) = 70"
    by (simp add: calculateRecruiterScore_def DEFAULT_RUBRIC_V1_def rubric_half_weights_def)
  have adm100: "score (calculateAdminScore
         \<lparr>isp_goal_errors = 0, isp_behavior_errors = 0, mar_errors = 0,
          attendance_tardies_callouts = 0, attendance_ncns = 0,
          individual_interaction_admin = None\<rparr> rubric_half_weights) = 100"
    by (simp add: calculateAdminScore_def metricMap_def DEFAULT_RUBRIC_V1_def
        rubric_half_weights_def findDeductionForCount_def)
  have sup100: "score (calculateSupervisorScore (all_rated ''Outstanding'') rubric_half_weights) = 100"
    by (simp add: calculateSupervisorScore_def supervisor_ratings_def all_rated_def
        rating_deduction_def DEFAULT_RUBRIC_V1_def rubric_half_weights_def)
  have e1: "adminScore ?e1 = Some 90 \<and> supervisorScore ?e1 = Some 85 \<and> recruiterScore ?e1 = Some 70"
    by (simp add: computed_scores_eq rb03 rows_e1 adm90 sup85 rec70 Let_def)
  have w03: "admin_weight (weights (rubric (getRubricForMonth (rubric_versions example_db) ''2025-03''))) = 4 / 10 \<and>
      supervisor_weight (weights (rubric (getRubricForMonth (rubric_versions example_db) ''2025-03''))) = 4 / 10 \<and>
      recruiter_weight (weights (rubric (getRubricForMonth (rubric_versions example_db) ''2025-03''))) = 2 / 10"
    by (simp add: rb03 DEFAULT_RUBRIC_V1_def)
  from final_score_all_or_nothing[OF refl refl, where db = example_db and month = "''2025-03''"
      and employeeId = "''E1''"] e1 w03
  have f1: "finalScore ?e1 = Some (Finite 84)" by blast
  have e2: "adminScore ?e2 = None"
    by (simp add: computed_scores_eq rb03 rows_e2 Let_def)
  from final_score_all_or_nothing[OF refl refl, where db = example_db and month = "''2025-03''"
      and employeeId = "''E2''"] e2
  have f2: "finalScore ?e2 = None" by blast
  have oct: "adminScore ?oct = Some 100 \<and> supervisorScore ?oct = Some 100 \<and> recruiterScore ?oct = Some 70"
    by (simp add: computed_scores_eq rb10 rows_oct adm100 sup100 rec70' Let_def)
  have w10: "weights (rubric (getRubricForMonth (rubric_versions example_db) ''2025-10'')) =
      \<lparr>admin_weight = 1 / 2, supervisor_weight = 1 / 4, recruiter_weight = 1 / 4\<rparr>"
    by (simp add: rb10 rubric_half_weights_def)
  let ?rb = "rubric (getRubricForMonth (rubric_versions example_db) ''2025-10'')"
  have repr: "representable (100 :: rat)" "representable (admin_weight (weights ?rb))"
    "representable (100 * admin_weight (weights ?rb))"
    "representable (supervisor_weight (weights ?rb))"
    "representable (100 * supervisor_weight (weights ?rb))"
    "representable (70 :: rat)" "representable (recruiter_weight (weights ?rb))"
    "representable (70 * recruiter_weight (weights ?rb))"
    "representable (100 * admin_weight (weights ?rb) + 100 * supervisor_weight (weights ?rb))"
    "representable (100 * admin_weight (weights ?rb) + 100 * supervisor_weight (weights ?rb) +
       70 * recruiter_weight (weights ?rb))"
    by (simp_all add: w10 representable_def double_eval)
  have sum: "representable (100 * (1 / 2) + 100 * (1 / 4) + 70 * (1 / 4))"
    by (simp add: representable_def double_eval)
  from final_score_all_or_nothing[OF refl refl, where a = 100 and s = 100 and r = 70
      and db = example_db and month = "''2025-10''" and employeeId = "''E1''"]
    oct repr
  have "finalScore ?oct =
      Some (Finite (of_int (round (100 * admin_weight (weights ?rb) +
                                   100 * supervisor_weight (weights ?rb) +
                                   70 * recruiter_weight (weights ?rb)))))"
    by blast
  then have f3: "finalScore ?oct = Some (Finite 93)" by (simp add: w10 round_def)
  from e1 f1 e2 f2 sum f3 show ?thesis by blast
qed

text \<open>
  Claim C8.  The record that \<^verbatim>\<open>computeScoresForEmployee\<close> returns is determined by
  the resolved rubric and the stored submissions of the employee and month: two runs, on
  stores that resolve the month to the same rubric and hold the same submissions (as the
  same list, or in any order when no role occurs twice), at any time, with any area and
  any earlier content of \<^verbatim>\<open>scores_computed\<close>, return the same category scores, final
  score, deductions breakdown and rubric version, and store the same
  \<^verbatim>\<open>deductions_json\<close>.  Running again on the store that a run leaves behind returns
  the same record.
\<close>

theorem computeScoresForEmployee_deterministic:
  assumes "getRubricForMonth (rubric_versions db) month =
           getRubricForMonth (rubric_versions db') month"
    and "select_submissions (submissions_raw db) month employeeId =
           select_submissions (submissions_raw db') month employeeId \<or>
         (distinct (map role (select_submissions (submissions_raw db) month employeeId)) \<and>
          mset (select_submissions (submissions_raw db) month employeeId) =
            mset (select_submissions (submissions_raw db') month employeeId))"
  shows "fst (computeScoresForEmployee stringify now db month employeeId area) =
           fst (computeScoresForEmployee stringify now' db' month employeeId area') \<and>
         map_option sc_deductions_json
           (lookup_scores_computed
              (scores_computed (snd (computeScoresForEmployee stringify now db month employeeId area)))
              month employeeId) =
         map_option sc_deductions_json
           (lookup_scores_computed
              (scores_computed (snd (computeScoresForEmployee stringify now' db' month employeeId area')))
              month employeeId) \<and>
         fst (computeScoresForEmployee stringify now'
                (snd (computeScoresForEmployee stringify now db month employeeId area))
                month employeeId area') =
           fst (computeScoresForEmployee stringify now db month employeeId area)"
proof -
  have same: "fst (computeScoresForEmployee stringify now db month employeeId area) =
              fst (computeScoresForEmployee stringify now' db' month employeeId area')"
    by (rule computeScores_result_cong[OF assms])
  have json: "map_option sc_deductions_json
           (lookup_scores_computed
              (scores_computed (snd (computeScoresForEmployee stringify now db month employeeId area)))
              month employeeId) =
         map_option sc_deductions_json
           (lookup_scores_computed
              (scores_computed (snd (computeScoresForEmployee stringify now' db' month employeeId area')))
              month employeeId)"
    by (simp only: computeScores_stored_json same)
  have rerun: "fst (computeScoresForEmployee stringify now'
                (snd (computeScoresForEmployee stringify now db month employeeId area))
                month employeeId area') =
           fst (computeScoresForEmployee stringify now db month employeeId area)"
    by (rule computeScores_result_cong) (simp_all add: computeScores_store_untouched)
  from same json rerun show ?thesis by blast
qed

theorem computeScoresForEmployee_deterministic_witness:
  "\<forall>stringify.
     getRubricForMonth (rubric_versions example_db) ''2025-03'' =
       getRubricForMonth (rubric_versions example_db_reordered) ''2025-03'' \<and>
     select_submissions (submissions_raw example_db) ''2025-03'' ''E1'' \<noteq>
       select_submissions (submissions_raw example_db_reordered) ''2025-03'' ''E1'' \<and>
     distinct (map role (select_submissions (submissions_raw example_db) ''2025-03'' ''E1'')) \<and>
     mset (select_submissions (submissions_raw example_db) ''2025-03'' ''E1'') =
       mset (select_submissions (submissions_raw example_db_reordered) ''2025-03'' ''E1'') \<and>
     fst (computeScoresForEmployee stringify 1 example_db ''2025-03'' ''E1'' ''South'') =
       fst (computeScoresForEmployee stringify 2 example_db_reordered ''2025-03'' ''E1'' ''Price'') \<and>
     map_option sc_deductions_json
       (lookup_scores_computed
          (scores_computed (snd (computeScoresForEmployee stringify 1 example_db
             ''2025-03'' ''E1'' ''South''))) ''2025-03'' ''E1'') =
     map_option sc_deductions_json
       (lookup_scores_computed
          (scores_computed (snd (computeScoresForEmployee stringify 2 example_db_reordered
             ''2025-03'' ''E1'' ''Price''))) ''2025-03'' ''E1'')"
proof
  fix stringify :: "DeductionsBreakdown \<Rightarrow> string"
  have rb: "getRubricForMonth (rubric_versions example_db) ''2025-03'' =
       getRubricForMonth (rubric_versions example_db_reordered) ''2025-03''"
    by (simp add: example_db_def example_db_reordered_def example_versions_def
        getRubricForMonth_def select_rubric_versions_def)
  have rows: "select_submissions (submissions_raw example_db) ''2025-03'' ''E1'' =
      [AdminSubmission
         \<lparr>isp_goal_errors = 2, isp_behavior_errors = 1, mar_errors = 0,
          attendance_tardies_callouts = 0, attendance_ncns = 0,
          individual_interaction_admin = None\<rparr>,
       SupervisorSubmission (all_rated ''Exceeds Expectations''),
       RecruiterSubmission \<lparr>overdue_trainings = 2, retrainings = 0, edas_past_6_months = 0\<rparr>]"
    by (simp add: example_db_def example_submissions_def select_submissions_def)
  have rows': "select_submissions (submissions_raw example_db_reordered) ''2025-03'' ''E1'' =
      [RecruiterSubmission \<lparr>overdue_trainings = 2, retrainings = 0, edas_past_6_months = 0\<rparr>,
       SupervisorSubmission (all_rated ''Exceeds Expectations''),
       AdminSubmission
         \<lparr>isp_goal_errors = 2, isp_behavior_errors = 1, mar_errors = 0,
          attendance_tardies_callouts = 0, attendance_ncns = 0,
          individual_interaction_admin = None\<rparr>]"
    by (simp add: example_db_reordered_def example_submissions_def select_submissions_def)
  have differ: "select_submissions (submissions_raw example_db) ''2025-03'' ''E1'' \<noteq>
       select_submissions (submissions_raw example_db_reordered) ''2025-03'' ''E1''"
    by (simp add: rows rows')
  have dist: "distinct (map role (select_submissions (submissions_raw example_db) ''2025-03'' ''E1''))"
    by (simp add: rows)
  have perm: "mset (select_submissions (submissions_raw example_db) ''2025-03'' ''E1'') =
       mset (select_submissions (submissions_raw example_db_reordered) ''2025-03'' ''E1'')"
    by (simp add: rows rows')
  from dist perm
  have hyp: "select_submissions (submissions_raw example_db) ''2025-03'' ''E1'' =
           select_submissions (submissions_raw example_db_reordered) ''2025-03'' ''E1'' \<or>
         (distinct (map role (select_submissions (submissions_raw example_db) ''2025-03'' ''E1'')) \<and>
          mset (select_submissions (submissions_raw example_db) ''2025-03'' ''E1'') =
            mset (select_submissions (submissions_raw example_db_reordered) ''2025-03'' ''E1''))"
    by blast
  note det = computeScoresForEmployee_deterministic[OF rb hyp, where stringify = stringify
      and now = 1 and now' = 2 and area = "''South''" and area' = "''Price''"]
  from rb differ dist perm det
  show "getRubricForMonth (rubric_versions example_db) ''2025-03'' =
       getRubricForMonth (rubric_versions example_db_reordered) ''2025-03'' \<and>
     select_submissions (submissions_raw example_db) ''2025-03'' ''E1'' \<noteq>
       select_submissions (submissions_raw example_db_reordered) ''2025-03'' ''E1'' \<and>
     distinct (map role (select_submissions (submissions_raw example_db) ''2025-03'' ''E1'')) \<and>
     mset (select_submissions (submissions_raw example_db) ''2025-03'' ''E1'') =
       mset (select_submissions (submissions_raw example_db_reordered) ''2025-03'' ''E1'') \<and>
     fst (computeScoresForEmployee stringify 1 example_db ''2025-03'' ''E1'' ''South'') =
       fst (computeScoresForEmployee stringify 2 example_db_reordered ''2025-03'' ''E1'' ''Price'') \<and>
     map_option sc_deductions_json
       (lookup_scores_computed
          (scores_computed (snd (computeScoresForEmployee stringify 1 example_db
             ''2025-03'' ''E1'' ''South''))) ''2025-03'' ''E1'') =
     map_option sc_deductions_json
       (lookup_scores_computed
          (scores_computed (snd (computeScoresForEmployee stringify 2 example_db_reordered
             ''2025-03'' ''E1'' ''Price''))) ''2025-03'' ''E1'')"
    by blast
qed

end
